theory Spec2Isabelle
  imports Complex_Main "HOL-Library.Signed_Division"
begin

unbundle bit_operations_syntax

section \<open>The GPU Gaussian blur of SkGpuBlurUtils\<close>

text \<open>
  A shallow embedding of the blur pipeline of \<^verbatim>\<open>SkGpuBlurUtils.cpp\<close>: the sigma planner
  \<^verbatim>\<open>adjust_sigma\<close>, the stages \<^verbatim>\<open>decimate\<close>, \<^verbatim>\<open>convolve_gaussian\<close>,
  \<^verbatim>\<open>convolve_gaussian_2d\<close> and \<^verbatim>\<open>reexpand\<close>, and the orchestrator
  \<^verbatim>\<open>SkGpuBlurUtils::GaussianBlur\<close>.

  Conventions of the embedding.
  \<^item> A C++ \<^verbatim>\<open>float\<close> is a \<^typ>\<open>real\<close>: finite values only, every operation exact. The
    halving \<^verbatim>\<open>sigma *= 0.5f\<close> and the scales \<^verbatim>\<open>1.0f / scaleFactor\<close> for a power of two are
    exact in binary floating point as well; the product \<^verbatim>\<open>sigma * 3.0f\<close> is rounded by the
    machine and is exact here.
  \<^item> A C++ \<^verbatim>\<open>int\<close> is an \<^typ>\<open>int\<close>. The scale factor is only ever doubled from a value
    that is at most \<^verbatim>\<open>maxTextureSize\<close>, so nothing overflows 32 bits while
    \<^verbatim>\<open>maxTextureSize\<close> is below \<open>2 ^ 30\<close> (lemma \<open>adjust_sigma_doubled_in_range\<close>); beyond
    that the source would overflow a signed \<^verbatim>\<open>int\<close>, which C++ leaves undefined.
    Integer division truncates (\<open>sdiv\<close>).
  \<^item> \<^verbatim>\<open>SkASSERT\<close> is compiled only when \<^verbatim>\<open>SK_DEBUG\<close> is defined, and then a failing
    assertion aborts the process. The build is a parameter of the model; an aborted
    run is the outcome \<open>Aborted\<close>. Dereferencing a null pointer is \<open>Aborted\<close> too.
  \<^item> A function returning a nullable handle returns an \<open>option\<close>; \<^verbatim>\<open>nullptr\<close> is \<open>None\<close>.
  \<^item> The renderer is an external collaborator. Each request to it is appended to a log
    of events; whether a fallible request succeeds is read from the context, by the
    position the request takes in the log.
\<close>

subsection \<open>Rectangles and points\<close>

text \<open>
  Modelled from the spec: \<^verbatim>\<open>SkIPoint\<close>, \<^verbatim>\<open>SkIRect\<close> and \<^verbatim>\<open>SkRect\<close> are declared in
  \<^verbatim>\<open>SkRect.h\<close>, which is not among the sources. The spec calls them integer rectangles
  (left, top, right, bottom) with a width and a height; the operations below are the
  ones the blur code calls, with their usual meaning.
\<close>

record SkIPoint =
  fX :: int
  fY :: int

record SkIRect =
  fLeft :: int
  fTop :: int
  fRight :: int
  fBottom :: int

datatype SkRect = SkRect_MakeLTRB real real real real

datatype SkMatrix = SkMatrix_MakeTrans real real

definition SkMatrix_I :: SkMatrix where
  "SkMatrix_I = SkMatrix_MakeTrans 0 0"

definition SkIPoint_Make :: "int \<Rightarrow> int \<Rightarrow> SkIPoint" where
  "SkIPoint_Make x y = \<lparr>fX = x, fY = y\<rparr>"

definition SkIPoint_negate :: "SkIPoint \<Rightarrow> SkIPoint" where
  "SkIPoint_negate p = \<lparr>fX = - fX p, fY = - fY p\<rparr>"

definition SkIRect_MakeLTRB :: "int \<Rightarrow> int \<Rightarrow> int \<Rightarrow> int \<Rightarrow> SkIRect" where
  "SkIRect_MakeLTRB l t r b = \<lparr>fLeft = l, fTop = t, fRight = r, fBottom = b\<rparr>"

definition SkIRect_MakeXYWH :: "int \<Rightarrow> int \<Rightarrow> int \<Rightarrow> int \<Rightarrow> SkIRect" where
  "SkIRect_MakeXYWH x y w h = \<lparr>fLeft = x, fTop = y, fRight = x + w, fBottom = y + h\<rparr>"

definition SkIRect_MakeWH :: "int \<Rightarrow> int \<Rightarrow> SkIRect" where
  "SkIRect_MakeWH w h = \<lparr>fLeft = 0, fTop = 0, fRight = w, fBottom = h\<rparr>"

definition SkIRect_width :: "SkIRect \<Rightarrow> int" where
  "SkIRect_width r = fRight r - fLeft r"

definition SkIRect_height :: "SkIRect \<Rightarrow> int" where
  "SkIRect_height r = fBottom r - fTop r"

definition SkIRect_isEmpty :: "SkIRect \<Rightarrow> bool" where
  "SkIRect_isEmpty r = (fLeft r \<ge> fRight r \<or> fTop r \<ge> fBottom r)"

definition SkIRect_offset :: "SkIRect \<Rightarrow> SkIPoint \<Rightarrow> SkIRect" where
  "SkIRect_offset r d =
     \<lparr>fLeft = fLeft r + fX d, fTop = fTop r + fY d,
      fRight = fRight r + fX d, fBottom = fBottom r + fY d\<rparr>"

definition SkIRect_inset :: "SkIRect \<Rightarrow> int \<Rightarrow> int \<Rightarrow> SkIRect" where
  "SkIRect_inset r dx dy =
     \<lparr>fLeft = fLeft r + dx, fTop = fTop r + dy,
      fRight = fRight r - dx, fBottom = fBottom r - dy\<rparr>"

definition SkIRect_offsetTo :: "SkIRect \<Rightarrow> int \<Rightarrow> int \<Rightarrow> SkIRect" where
  "SkIRect_offsetTo r x y =
     \<lparr>fLeft = x, fTop = y,
      fRight = fRight r + (x - fLeft r), fBottom = fBottom r + (y - fTop r)\<rparr>"

definition SkRect_Make :: "SkIRect \<Rightarrow> SkRect" where
  "SkRect_Make r =
     SkRect_MakeLTRB (real_of_int (fLeft r)) (real_of_int (fTop r))
       (real_of_int (fRight r)) (real_of_int (fBottom r))"

fun SkRect_inset :: "SkRect \<Rightarrow> real \<Rightarrow> real \<Rightarrow> SkRect" where
  "SkRect_inset (SkRect_MakeLTRB l t r b) dx dy = SkRect_MakeLTRB (l + dx) (t + dy) (r - dx) (b - dy)"

definition SK_ScalarHalf :: real where
  "SK_ScalarHalf = 0.5"

subsection \<open>Enumerations, image info and the build\<close>

text \<open>
  Modelled from the spec: the enumerations are declared in headers that are not among
  the sources. The edge-handling modes are the four the spec lists; the pixel configs
  are the ten that \<^verbatim>\<open>get_blur_config\<close> names, and \<open>kOther_GrPixelConfig\<close> stands for the
  values of the enumeration the blur code does not name.
\<close>

datatype Direction = kX | kY

datatype Mode = kIgnore_Mode | kClamp_Mode | kRepeat_Mode | kDecal_Mode

datatype SkBackingFit = kApprox | kExact

datatype Filter = kBilerp

datatype GrSamplerState = ClampBilerp

datatype SkBlendMode = kSrc

datatype SkAlphaType =
  kUnknown_SkAlphaType | kOpaque_SkAlphaType | kPremul_SkAlphaType | kUnpremul_SkAlphaType

datatype GrPixelConfig =
    kBGRA_8888_GrPixelConfig
  | kRGBA_8888_GrPixelConfig
  | kRGB_888_GrPixelConfig
  | kRGBA_4444_GrPixelConfig
  | kRGB_565_GrPixelConfig
  | kSRGBA_8888_GrPixelConfig
  | kSBGRA_8888_GrPixelConfig
  | kRGBA_half_GrPixelConfig
  | kAlpha_8_GrPixelConfig
  | kRGBA_1010102_GrPixelConfig
  | kOther_GrPixelConfig nat

datatype SkColorType =
    kAlpha_8_SkColorType
  | kRGB_565_SkColorType
  | kARGB_4444_SkColorType
  | kRGBA_8888_SkColorType
  | kRGB_888x_SkColorType
  | kBGRA_8888_SkColorType
  | kRGBA_1010102_SkColorType
  | kRGBA_F16_SkColorType

type_synonym SkColorSpace = nat

record SkImageInfo =
  ii_width :: int
  ii_height :: int
  ii_colorType :: SkColorType
  ii_alphaType :: SkAlphaType
  ii_colorSpace :: "SkColorSpace option"

definition SkImageInfo_Make ::
  "int \<Rightarrow> int \<Rightarrow> SkColorType \<Rightarrow> SkAlphaType \<Rightarrow> SkColorSpace option \<Rightarrow> SkImageInfo" where
  "SkImageInfo_Make w h ct alphaType cs =
     \<lparr>ii_width = w, ii_height = h, ii_colorType = ct, ii_alphaType = alphaType, ii_colorSpace = cs\<rparr>"

definition SkImageInfo_bounds :: "SkImageInfo \<Rightarrow> SkIRect" where
  "SkImageInfo_bounds ii = SkIRect_MakeWH (ii_width ii) (ii_height ii)"

text \<open>
  What the blur code takes from the rest of the build: whether \<^verbatim>\<open>SK_DEBUG\<close> is defined,
  the constants \<^verbatim>\<open>GrGaussianConvolutionFragmentProcessor::kMaxKernelRadius\<close> and
  \<^verbatim>\<open>MAX_KERNEL_SIZE\<close>, and the helpers \<^verbatim>\<open>GrPixelConfigIsSRGB\<close> and
  \<^verbatim>\<open>GrPixelConfigToColorType\<close>. None of them is declared in the sources, so each is a
  parameter.
\<close>

record build =
  SK_DEBUG :: bool
  kMaxKernelRadius :: int
  MAX_KERNEL_SIZE :: int
  GrPixelConfigIsSRGB :: "GrPixelConfig \<Rightarrow> bool"
  GrPixelConfigToColorType :: "GrPixelConfig \<Rightarrow> SkColorType option"

datatype 'a outcome = Aborted | Returned 'a

subsection \<open>Rectangle helpers of the blur code\<close>

definition MAX_BLUR_SIGMA :: real where
  "MAX_BLUR_SIGMA = 4.0"

definition scale_irect_roundout :: "SkIRect \<Rightarrow> real \<Rightarrow> real \<Rightarrow> SkIRect" where
  "scale_irect_roundout rect xScale yScale =
     \<lparr>fLeft = \<lfloor>real_of_int (fLeft rect) * xScale\<rfloor>,
      fTop = \<lfloor>real_of_int (fTop rect) * yScale\<rfloor>,
      fRight = \<lceil>real_of_int (fRight rect) * xScale\<rceil>,
      fBottom = \<lceil>real_of_int (fBottom rect) * yScale\<rceil>\<rparr>"

definition scale_irect :: "SkIRect \<Rightarrow> int \<Rightarrow> int \<Rightarrow> SkIRect" where
  "scale_irect rect xScale yScale =
     \<lparr>fLeft = fLeft rect * xScale, fTop = fTop rect * yScale,
      fRight = fRight rect * xScale, fBottom = fBottom rect * yScale\<rparr>"

definition is_even :: "int \<Rightarrow> bool" where
  "is_even x = (x AND 1 = 0)"

definition shrink_irect_by_2 :: "build \<Rightarrow> SkIRect \<Rightarrow> bool \<Rightarrow> bool \<Rightarrow> SkIRect outcome" where
  "shrink_irect_by_2 b rect xAxis yAxis =
     (if xAxis \<and> SK_DEBUG b \<and> \<not> (is_even (fLeft rect) \<and> is_even (fRight rect)) then Aborted
      else
        let rect1 = (if xAxis then rect\<lparr>fLeft := fLeft rect sdiv 2, fRight := fRight rect sdiv 2\<rparr>
                     else rect)
        in if yAxis \<and> SK_DEBUG b \<and> \<not> (is_even (fTop rect1) \<and> is_even (fBottom rect1)) then Aborted
           else Returned (if yAxis then rect1\<lparr>fTop := fTop rect1 sdiv 2, fBottom := fBottom rect1 sdiv 2\<rparr>
                          else rect1))"

subsection \<open>The sigma planner\<close>

text \<open>
  The \<^verbatim>\<open>while\<close> loop of \<^verbatim>\<open>adjust_sigma\<close>, as a recursion on the loop state
  (\<open>sigma\<close>, \<open>*scaleFactor\<close>). It terminates because every iteration leaves a smaller
  \<open>\<lceil>sigma\<rceil>\<close>.
\<close>

function adjust_sigma_loop :: "real \<Rightarrow> int \<Rightarrow> int \<Rightarrow> real \<times> int" where
  "adjust_sigma_loop sigma maxTextureSize scaleFactor =
     (if sigma > MAX_BLUR_SIGMA then
        (if scaleFactor * 2 > maxTextureSize
         then adjust_sigma_loop MAX_BLUR_SIGMA maxTextureSize maxTextureSize
         else adjust_sigma_loop (sigma * 0.5) maxTextureSize (scaleFactor * 2))
      else (sigma, scaleFactor))"
  by pat_completeness auto
termination
proof (relation "measure (\<lambda>(sigma, m, s). nat \<lceil>sigma\<rceil>)")
  show "wf (measure (\<lambda>(sigma, m, s). nat \<lceil>sigma\<rceil>))" by simp
next
  fix sigma :: real and maxTextureSize scaleFactor :: int
  assume "MAX_BLUR_SIGMA < sigma"
  then have "4 < sigma" by (simp add: MAX_BLUR_SIGMA_def)
  then have "5 \<le> \<lceil>sigma\<rceil>" by linarith
  then have "4 < nat \<lceil>sigma\<rceil>" by linarith
  then show "((MAX_BLUR_SIGMA, maxTextureSize, maxTextureSize), (sigma, maxTextureSize, scaleFactor))
      \<in> measure (\<lambda>(sigma, m, s). nat \<lceil>sigma\<rceil>)"
    by (simp add: MAX_BLUR_SIGMA_def)
next
  fix sigma :: real and maxTextureSize scaleFactor :: int
  assume "MAX_BLUR_SIGMA < sigma"
  then have s: "4 < sigma" by (simp add: MAX_BLUR_SIGMA_def)
  have "\<lceil>sigma * 0.5\<rceil> < \<lceil>sigma\<rceil>" using s by linarith
  moreover have "0 < \<lceil>sigma\<rceil>" using s by linarith
  ultimately show "((sigma * 0.5, maxTextureSize, scaleFactor * 2), (sigma, maxTextureSize, scaleFactor))
      \<in> measure (\<lambda>(sigma, m, s). nat \<lceil>sigma\<rceil>)"
    by simp
qed

declare adjust_sigma_loop.simps [simp del]

text \<open>
  The values that \<^verbatim>\<open>*scaleFactor *= 2\<close> stores during the loop, in order. This is the only
  arithmetic on the scale factor that could leave the 32 bits of an \<^verbatim>\<open>int\<close>.
\<close>

function adjust_sigma_doubled :: "real \<Rightarrow> int \<Rightarrow> int \<Rightarrow> int list" where
  "adjust_sigma_doubled sigma maxTextureSize scaleFactor =
     (if sigma > MAX_BLUR_SIGMA then
        scaleFactor * 2 #
        (if scaleFactor * 2 > maxTextureSize
         then adjust_sigma_doubled MAX_BLUR_SIGMA maxTextureSize maxTextureSize
         else adjust_sigma_doubled (sigma * 0.5) maxTextureSize (scaleFactor * 2))
      else [])"
  by pat_completeness auto
termination
proof (relation "measure (\<lambda>(sigma, m, s). nat \<lceil>sigma\<rceil>)")
  show "wf (measure (\<lambda>(sigma, m, s). nat \<lceil>sigma\<rceil>))" by simp
next
  fix sigma :: real and maxTextureSize scaleFactor :: int
  assume "MAX_BLUR_SIGMA < sigma"
  then have "4 < sigma" by (simp add: MAX_BLUR_SIGMA_def)
  then have "5 \<le> \<lceil>sigma\<rceil>" by linarith
  then have "4 < nat \<lceil>sigma\<rceil>" by linarith
  then show "((MAX_BLUR_SIGMA, maxTextureSize, maxTextureSize), (sigma, maxTextureSize, scaleFactor))
      \<in> measure (\<lambda>(sigma, m, s). nat \<lceil>sigma\<rceil>)"
    by (simp add: MAX_BLUR_SIGMA_def)
next
  fix sigma :: real and maxTextureSize scaleFactor :: int
  assume "MAX_BLUR_SIGMA < sigma"
  then have s: "4 < sigma" by (simp add: MAX_BLUR_SIGMA_def)
  have "\<lceil>sigma * 0.5\<rceil> < \<lceil>sigma\<rceil>" using s by linarith
  moreover have "0 < \<lceil>sigma\<rceil>" using s by linarith
  ultimately show "((sigma * 0.5, maxTextureSize, scaleFactor * 2), (sigma, maxTextureSize, scaleFactor))
      \<in> measure (\<lambda>(sigma, m, s). nat \<lceil>sigma\<rceil>)"
    by simp
qed

declare adjust_sigma_doubled.simps [simp del]

text \<open>
  \<^verbatim>\<open>adjust_sigma\<close> returns the adjusted sigma and writes \<^verbatim>\<open>*scaleFactor\<close> and \<^verbatim>\<open>*radius\<close>;
  the model returns the three together, in that order.
\<close>

definition adjust_sigma :: "build \<Rightarrow> real \<Rightarrow> int \<Rightarrow> (real \<times> int \<times> int) outcome" where
  "adjust_sigma b sigma maxTextureSize =
     (case adjust_sigma_loop sigma maxTextureSize 1 of
        (sigma1, scaleFactor) \<Rightarrow>
          let radius = \<lceil>sigma1 * 3.0\<rceil>
          in if SK_DEBUG b \<and> \<not> radius \<le> kMaxKernelRadius b then Aborted
             else Returned (sigma1, scaleFactor, radius))"




text \<open>
  Modelled from the spec: \<^verbatim>\<open>SkIsPow2\<close> is declared in \<^verbatim>\<open>SkMathPriv.h\<close>, which is not among the
  sources; it is the test \<^verbatim>\<open>(value & (value - 1)) == 0\<close> behind the spec's "scale factors
  are always powers of two".
\<close>

definition SkIsPow2 :: "int \<Rightarrow> bool" where
  "SkIsPow2 v = (v AND (v - 1) = 0)"

subsection \<open>The renderer\<close>

text \<open>
  Modelled from the spec: the renderer is outside the sources. Section 6 of the spec
  gives its interface: allocate-render-target(fit, width, height, pixel-format,
  color-space) returning a handle or failure, issue-fill-rect(clip, paint with a fragment
  effect, geometry), issue-clear(rect, color), get-texture-reference(render-target)
  returning a texture handle, and the query max-texture-size(). A render target
  reports the width, height, pixel config and colour space it was requested with, and
  its texture reference has its pixel config. Render targets are numbered from 1, by the
  position of their allocation in the log; the number 0 is left to the texture of the
  caller.
\<close>

record GrContext =
  caps_maxTextureSize :: int
  request_succeeds :: "nat \<Rightarrow> bool"

record GrTextureProxy =
  proxy_id :: nat
  proxy_config :: GrPixelConfig

record GrRenderTargetContext =
  rtc_id :: nat
  rtc_width :: int
  rtc_height :: int
  rtc_config :: GrPixelConfig
  rtc_colorSpace :: "SkColorSpace option"

datatype GrFragmentProcessor =
    GrGaussianConvolutionFragmentProcessor_Make GrTextureProxy Direction int real Mode "int \<times> int"
  | GrMatrixConvolutionEffect_MakeGaussian GrTextureProxy SkIRect "int \<times> int" real real SkIPoint
      Mode bool real real
  | GrTextureDomainEffect_Make GrTextureProxy SkMatrix SkRect Mode Filter
  | ColorTextureProcessor GrTextureProxy SkMatrix GrSamplerState

record GrPaint =
  gammaCorrect :: bool
  colorFragmentProcessor :: GrFragmentProcessor
  xpFactory :: SkBlendMode

datatype event =
    MakeDeferredRenderTargetContext SkBackingFit int int GrPixelConfig "SkColorSpace option" bool
  | AsTextureProxyRef nat bool
  | Clear nat SkIRect
  | AbsClear nat SkIRect
  | FillRectWithLocalMatrix nat SkIRect GrPaint SkRect SkMatrix
  | FillRectToRect nat SkIRect GrPaint SkRect SkRect

definition makeDeferredRenderTargetContext ::
  "GrContext \<Rightarrow> SkBackingFit \<Rightarrow> int \<Rightarrow> int \<Rightarrow> GrPixelConfig \<Rightarrow> SkColorSpace option \<Rightarrow>
   event list \<Rightarrow> GrRenderTargetContext option \<times> event list" where
  "makeDeferredRenderTargetContext ctx fit w h config cs evs =
     (if request_succeeds ctx (length evs)
      then (Some \<lparr>rtc_id = Suc (length evs), rtc_width = w, rtc_height = h, rtc_config = config,
                   rtc_colorSpace = cs\<rparr>,
            evs @ [MakeDeferredRenderTargetContext fit w h config cs True])
      else (None, evs @ [MakeDeferredRenderTargetContext fit w h config cs False]))"

definition asTextureProxyRef ::
  "GrContext \<Rightarrow> GrRenderTargetContext \<Rightarrow> event list \<Rightarrow> GrTextureProxy option \<times> event list" where
  "asTextureProxyRef ctx rtc evs =
     (if request_succeeds ctx (length evs)
      then (Some \<lparr>proxy_id = rtc_id rtc, proxy_config = rtc_config rtc\<rparr>,
            evs @ [AsTextureProxyRef (rtc_id rtc) True])
      else (None, evs @ [AsTextureProxyRef (rtc_id rtc) False]))"

definition isGammaCorrect :: "GrRenderTargetContext \<Rightarrow> bool" where
  "isGammaCorrect rtc = (rtc_colorSpace rtc \<noteq> None)"

definition clear :: "GrRenderTargetContext \<Rightarrow> SkIRect \<Rightarrow> event list \<Rightarrow> event list" where
  "clear rtc rect evs = evs @ [Clear (rtc_id rtc) rect]"

definition absClear :: "GrRenderTargetContext \<Rightarrow> SkIRect \<Rightarrow> event list \<Rightarrow> event list" where
  "absClear rtc rect evs = evs @ [AbsClear (rtc_id rtc) rect]"

definition fillRectWithLocalMatrix ::
  "GrRenderTargetContext \<Rightarrow> SkIRect \<Rightarrow> GrPaint \<Rightarrow> SkRect \<Rightarrow> SkMatrix \<Rightarrow> event list \<Rightarrow> event list" where
  "fillRectWithLocalMatrix rtc clip paint rect localMatrix evs =
     evs @ [FillRectWithLocalMatrix (rtc_id rtc) clip paint rect localMatrix]"

definition fillRectToRect ::
  "GrRenderTargetContext \<Rightarrow> SkIRect \<Rightarrow> GrPaint \<Rightarrow> SkRect \<Rightarrow> SkRect \<Rightarrow> event list \<Rightarrow> event list" where
  "fillRectToRect rtc clip paint rectToDraw localRect evs =
     evs @ [FillRectToRect (rtc_id rtc) clip paint rectToDraw localRect]"

subsection \<open>The convolution passes\<close>

definition convolve_gaussian_1d ::
  "GrRenderTargetContext \<Rightarrow> SkIRect \<Rightarrow> SkIRect \<Rightarrow> SkIPoint \<Rightarrow> GrTextureProxy \<Rightarrow> Direction \<Rightarrow>
   int \<Rightarrow> real \<Rightarrow> Mode \<Rightarrow> int \<times> int \<Rightarrow> event list \<Rightarrow> event list" where
  "convolve_gaussian_1d renderTargetContext clip dstRect srcOffset proxy direction radius sigma
     mode bounds evs =
     (let conv = GrGaussianConvolutionFragmentProcessor_Make proxy direction radius sigma mode bounds;
          paint = \<lparr>gammaCorrect = isGammaCorrect renderTargetContext,
                   colorFragmentProcessor = conv, xpFactory = kSrc\<rparr>;
          localMatrix = SkMatrix_MakeTrans (- real_of_int (fX srcOffset)) (- real_of_int (fY srcOffset))
      in fillRectWithLocalMatrix renderTargetContext clip paint (SkRect_Make dstRect) localMatrix evs)"

definition get_blur_config :: "build \<Rightarrow> GrTextureProxy \<Rightarrow> SkColorSpace option \<Rightarrow> GrPixelConfig outcome" where
  "get_blur_config b proxy cs =
     (let config0 = proxy_config proxy;
          config = (if GrPixelConfigIsSRGB b config0 \<and> cs = None then kRGBA_8888_GrPixelConfig
                    else config0)
      in if SK_DEBUG b \<and>
            \<not> (kBGRA_8888_GrPixelConfig = config \<or> kRGBA_8888_GrPixelConfig = config \<or>
               kRGB_888_GrPixelConfig = config \<or> kRGBA_4444_GrPixelConfig = config \<or>
               kRGB_565_GrPixelConfig = config \<or> kSRGBA_8888_GrPixelConfig = config \<or>
               kSBGRA_8888_GrPixelConfig = config \<or> kRGBA_half_GrPixelConfig = config \<or>
               kAlpha_8_GrPixelConfig = config \<or> kRGBA_1010102_GrPixelConfig = config)
         then Aborted
         else Returned config)"

definition convolve_gaussian_2d ::
  "build \<Rightarrow> GrContext \<Rightarrow> GrTextureProxy \<Rightarrow> SkIRect \<Rightarrow> SkIPoint \<Rightarrow> int \<Rightarrow> int \<Rightarrow> real \<Rightarrow> real \<Rightarrow>
   Mode \<Rightarrow> SkImageInfo \<Rightarrow> SkBackingFit \<Rightarrow> event list \<Rightarrow>
   GrRenderTargetContext option outcome \<times> event list" where
  "convolve_gaussian_2d b ctx proxy srcBounds srcOffset radiusX radiusY sigmaX sigmaY mode
     dstII dstFit evs =
     (case get_blur_config b proxy (ii_colorSpace dstII) of
        Aborted \<Rightarrow> (Aborted, evs)
      | Returned config \<Rightarrow>
         (case makeDeferredRenderTargetContext ctx dstFit (ii_width dstII) (ii_height dstII)
                 config (ii_colorSpace dstII) evs of
            (None, evs1) \<Rightarrow> (Returned None, evs1)
          | (Some renderTargetContext, evs1) \<Rightarrow>
             (let localMatrix = SkMatrix_MakeTrans (- real_of_int (fX srcOffset))
                                  (- real_of_int (fY srcOffset));
                  size = (2 * radiusX + 1, 2 * radiusY + 1);
                  kernelOffset = SkIPoint_Make radiusX radiusY;
                  conv = GrMatrixConvolutionEffect_MakeGaussian proxy srcBounds size 1.0 0.0
                           kernelOffset mode True sigmaX sigmaY;
                  paint = \<lparr>gammaCorrect = isGammaCorrect renderTargetContext,
                           colorFragmentProcessor = conv, xpFactory = kSrc\<rparr>;
                  clip = SkImageInfo_bounds dstII
              in (Returned (Some renderTargetContext),
                  fillRectWithLocalMatrix renderTargetContext clip paint
                    (SkRect_Make (SkImageInfo_bounds dstII)) localMatrix evs1))))"

text \<open>
  The rectangles of \<^verbatim>\<open>convolve_gaussian\<close> when the mode is not \<open>kIgnore_Mode\<close>: the
  bounds of the domain, the two strips to clear (\<open>topRect\<close>, \<open>bottomRect\<close>), the interior
  \<open>midRect\<close>, the two margins (\<open>leftRect\<close>, \<open>rightRect\<close>) and the narrowed \<open>dstRect\<close>.
\<close>

definition convolve_gaussian_rects ::
  "Direction \<Rightarrow> int \<Rightarrow> SkIRect \<Rightarrow> SkIPoint \<Rightarrow> SkIRect \<Rightarrow>
   (int \<times> int) \<times> SkIRect \<times> SkIRect \<times> SkIRect \<times> SkIRect \<times> SkIRect \<times> SkIRect" where
  "convolve_gaussian_rects direction radius srcBounds srcOffset dstRect =
     (let midRect0 = SkIRect_offset srcBounds srcOffset
      in if direction = kX then
           (let bounds = (fLeft srcBounds, fRight srcBounds);
                topRect = SkIRect_MakeLTRB 0 0 (fRight dstRect) (fTop midRect0);
                bottomRect = SkIRect_MakeLTRB 0 (fBottom midRect0) (fRight dstRect) (fBottom dstRect);
                midRect = SkIRect_inset midRect0 radius 0;
                leftRect = SkIRect_MakeLTRB 0 (fTop midRect) (fLeft midRect) (fBottom midRect);
                rightRect = SkIRect_MakeLTRB (fRight midRect) (fTop midRect) (SkIRect_width dstRect)
                              (fBottom midRect);
                dstRect1 = dstRect\<lparr>fTop := fTop midRect, fBottom := fBottom midRect\<rparr>
            in (bounds, topRect, bottomRect, midRect, leftRect, rightRect, dstRect1))
         else
           (let bounds = (fTop srcBounds, fBottom srcBounds);
                topRect = SkIRect_MakeLTRB 0 0 (fLeft midRect0) (fBottom dstRect);
                bottomRect = SkIRect_MakeLTRB (fRight midRect0) 0 (fRight dstRect) (fBottom dstRect);
                midRect = SkIRect_inset midRect0 0 radius;
                leftRect = SkIRect_MakeLTRB (fLeft midRect) 0 (fRight midRect) (fTop midRect);
                rightRect = SkIRect_MakeLTRB (fLeft midRect) (fBottom midRect) (fRight midRect)
                              (SkIRect_height dstRect);
                dstRect1 = dstRect\<lparr>fLeft := fLeft midRect, fRight := fRight midRect\<rparr>
            in (bounds, topRect, bottomRect, midRect, leftRect, rightRect, dstRect1)))"

definition convolve_gaussian ::
  "build \<Rightarrow> GrContext \<Rightarrow> GrTextureProxy \<Rightarrow> SkIRect \<Rightarrow> SkIPoint \<Rightarrow> Direction \<Rightarrow> int \<Rightarrow> real \<Rightarrow>
   SkIRect \<Rightarrow> Mode \<Rightarrow> SkImageInfo \<Rightarrow> SkBackingFit \<Rightarrow> event list \<Rightarrow>
   GrRenderTargetContext option outcome \<times> event list" where
  "convolve_gaussian b ctx proxy srcRect srcOffset direction radius sigma srcBounds mode
     dstII fit evs =
     (if SK_DEBUG b \<and> \<not> (SkIRect_width srcRect \<le> ii_width dstII \<and>
                          SkIRect_height srcRect \<le> ii_height dstII)
      then (Aborted, evs)
      else
       (case get_blur_config b proxy (ii_colorSpace dstII) of
          Aborted \<Rightarrow> (Aborted, evs)
        | Returned config \<Rightarrow>
           (case makeDeferredRenderTargetContext ctx fit (SkIRect_width srcRect)
                   (SkIRect_height srcRect) config (ii_colorSpace dstII) evs of
              (None, evs1) \<Rightarrow> (Returned None, evs1)
            | (Some dstRenderTargetContext, evs1) \<Rightarrow>
               (let clip = SkImageInfo_bounds dstII;
                    dstRect = SkIRect_MakeWH (SkIRect_width srcRect) (SkIRect_height srcRect)
                in if kIgnore_Mode = mode then
                     (Returned (Some dstRenderTargetContext),
                      convolve_gaussian_1d dstRenderTargetContext clip dstRect srcOffset proxy
                        direction radius sigma kIgnore_Mode (0, 0) evs1)
                   else
                     (case convolve_gaussian_rects direction radius srcBounds srcOffset dstRect of
                        (bounds, topRect, bottomRect, midRect, leftRect, rightRect, dstRect1) \<Rightarrow>
                          (let evs2 = (if \<not> SkIRect_isEmpty topRect
                                       then clear dstRenderTargetContext topRect evs1 else evs1);
                               evs3 = (if \<not> SkIRect_isEmpty bottomRect
                                       then clear dstRenderTargetContext bottomRect evs2 else evs2)
                           in if SkIRect_isEmpty midRect then
                                (Returned (Some dstRenderTargetContext),
                                 convolve_gaussian_1d dstRenderTargetContext clip dstRect1 srcOffset
                                   proxy direction radius sigma mode bounds evs3)
                              else
                                (Returned (Some dstRenderTargetContext),
                                 convolve_gaussian_1d dstRenderTargetContext clip midRect srcOffset
                                   proxy direction radius sigma kIgnore_Mode bounds
                                   (convolve_gaussian_1d dstRenderTargetContext clip rightRect
                                      srcOffset proxy direction radius sigma mode bounds
                                      (convolve_gaussian_1d dstRenderTargetContext clip leftRect
                                         srcOffset proxy direction radius sigma mode bounds
                                         evs3)))))))))"

subsection \<open>Decimation\<close>

text \<open>
  The variables that the \<^verbatim>\<open>for\<close> loop of \<^verbatim>\<open>decimate\<close> carries from one halving step to the
  next: \<^verbatim>\<open>src\<close>, \<^verbatim>\<open>*srcOffset\<close>, \<^verbatim>\<open>srcRect\<close>, \<^verbatim>\<open>dstRect\<close> and \<^verbatim>\<open>dstRenderTargetContext\<close>
  (null before the first step).
\<close>

record decimate_state =
  ds_src :: GrTextureProxy
  ds_srcOffset :: SkIPoint
  ds_srcRect :: SkIRect
  ds_dstRect :: SkIRect
  ds_dstRenderTargetContext :: "GrRenderTargetContext option"

text \<open>
  One halving step, the body of the loop at the value \<open>i\<close> of the loop counter. The
  result \<open>Returned None\<close> is the \<^verbatim>\<open>return nullptr\<close> of the body.
\<close>

definition decimate_step ::
  "build \<Rightarrow> GrContext \<Rightarrow> GrPixelConfig \<Rightarrow> SkColorSpace option \<Rightarrow> SkIRect \<Rightarrow> int \<Rightarrow> int \<Rightarrow> Mode \<Rightarrow>
   int \<Rightarrow> decimate_state \<Rightarrow> event list \<Rightarrow> decimate_state option outcome \<times> event list" where
  "decimate_step b ctx config cs contentRect scaleFactorX scaleFactorY mode i st evs =
     (case shrink_irect_by_2 b (ds_dstRect st) (i < scaleFactorX) (i < scaleFactorY) of
        Aborted \<Rightarrow> (Aborted, evs)
      | Returned dstRect \<Rightarrow>
         (case makeDeferredRenderTargetContext ctx kApprox (fRight dstRect) (fBottom dstRect)
                 config cs evs of
            (None, evs1) \<Rightarrow> (Returned None, evs1)
          | (Some dstRenderTargetContext, evs1) \<Rightarrow>
             (case (if kIgnore_Mode \<noteq> mode \<and> i = 1 then
                      (let modeForScaling = (if kRepeat_Mode = mode then kDecal_Mode else mode);
                           domain = SkRect_inset (SkRect_Make contentRect)
                                      (if i < scaleFactorX then SK_ScalarHalf else 0.0)
                                      (if i < scaleFactorY then SK_ScalarHalf else 0.0)
                       in (GrTextureDomainEffect_Make (ds_src st) SkMatrix_I domain modeForScaling
                             kBilerp,
                           SkIRect_offset (ds_srcRect st) (SkIPoint_negate (ds_srcOffset st)),
                           SkIPoint_Make 0 0))
                    else (ColorTextureProcessor (ds_src st) SkMatrix_I ClampBilerp,
                          ds_srcRect st, ds_srcOffset st)) of
                (fp, srcRect, srcOffset) \<Rightarrow>
                  (let paint = \<lparr>gammaCorrect = isGammaCorrect dstRenderTargetContext,
                                 colorFragmentProcessor = fp, xpFactory = kSrc\<rparr>;
                       clip = dstRect;
                       evs2 = fillRectToRect dstRenderTargetContext clip paint (SkRect_Make dstRect)
                                (SkRect_Make srcRect) evs1
                   in (case asTextureProxyRef ctx dstRenderTargetContext evs2 of
                         (None, evs3) \<Rightarrow> (Returned None, evs3)
                       | (Some src, evs3) \<Rightarrow>
                           (Returned (Some \<lparr>ds_src = src, ds_srcOffset = srcOffset,
                                             ds_srcRect = dstRect, ds_dstRect = dstRect,
                                             ds_dstRenderTargetContext = Some dstRenderTargetContext\<rparr>),
                            evs3))))))"

text \<open>
  The loop \<^verbatim>\<open>for (int i = 1; i < scaleFactorX || i < scaleFactorY; i *= 2)\<close>. The counter
  takes the values 1, 2, 4, ...; the recursion carries its exponent \<open>k\<close>, with
  \<open>i = 2 ^ k\<close>.
\<close>

function decimate_loop ::
  "build \<Rightarrow> GrContext \<Rightarrow> GrPixelConfig \<Rightarrow> SkColorSpace option \<Rightarrow> SkIRect \<Rightarrow> int \<Rightarrow> int \<Rightarrow> Mode \<Rightarrow>
   nat \<Rightarrow> decimate_state \<Rightarrow> event list \<Rightarrow> decimate_state option outcome \<times> event list" where
  "decimate_loop b ctx config cs contentRect scaleFactorX scaleFactorY mode k st evs =
     (if 2 ^ k < scaleFactorX \<or> 2 ^ k < scaleFactorY then
        (case decimate_step b ctx config cs contentRect scaleFactorX scaleFactorY mode
                (2 ^ k) st evs of
           (Aborted, evs1) \<Rightarrow> (Aborted, evs1)
         | (Returned None, evs1) \<Rightarrow> (Returned None, evs1)
         | (Returned (Some st1), evs1) \<Rightarrow>
             decimate_loop b ctx config cs contentRect scaleFactorX scaleFactorY mode
               (Suc k) st1 evs1)
      else (Returned (Some st), evs))"
  by pat_completeness auto
termination
proof (relation "measure (\<lambda>(b, ctx, config, cs, contentRect, scaleFactorX, scaleFactorY, mode,
                            k, st, evs). nat (max scaleFactorX scaleFactorY - 2 ^ k))")
  show "wf (measure (\<lambda>(b, ctx, config, cs, contentRect, scaleFactorX, scaleFactorY, mode,
                            k, st, evs). nat (max scaleFactorX scaleFactorY - 2 ^ k)))"
    by simp
next
  fix scaleFactorX scaleFactorY :: int and k :: nat
  fix b ctx config cs contentRect mode st evs st1 evs1
  assume "2 ^ k < scaleFactorX \<or> 2 ^ k < scaleFactorY"
  then have "(2::int) ^ k < max scaleFactorX scaleFactorY" by auto
  then have "nat (max scaleFactorX scaleFactorY - 2 ^ Suc k) < nat (max scaleFactorX scaleFactorY - 2 ^ k)"
    by simp
  then show "((b, ctx, config, cs, contentRect, scaleFactorX, scaleFactorY, mode, Suc k, st1, evs1),
              (b, ctx, config, cs, contentRect, scaleFactorX, scaleFactorY, mode, k, st, evs))
      \<in> measure (\<lambda>(b, ctx, config, cs, contentRect, scaleFactorX, scaleFactorY, mode,
                            k, st, evs). nat (max scaleFactorX scaleFactorY - 2 ^ k))"
    by simp
qed

declare decimate_loop.simps [simp del]

text \<open>
  \<^verbatim>\<open>decimate\<close> updates \<^verbatim>\<open>*srcOffset\<close> and \<^verbatim>\<open>*contentRect\<close> and returns the decimated texture;
  the model returns the three together. On \<^verbatim>\<open>return nullptr\<close> the model does not report
  the two out-parameters: the only caller returns at once without reading them.
  The scales \<^verbatim>\<open>1.0f / scaleFactorX\<close> and \<^verbatim>\<open>1.0f / scaleFactorY\<close> are not finite for a scale
  factor of zero, and converting what they produce to \<^verbatim>\<open>int\<close> is undefined; the model
  stops there.
\<close>

definition decimate ::
  "build \<Rightarrow> GrContext \<Rightarrow> GrTextureProxy \<Rightarrow> SkIPoint \<Rightarrow> SkIRect \<Rightarrow> int \<Rightarrow> int \<Rightarrow> bool \<Rightarrow> bool \<Rightarrow>
   int \<Rightarrow> int \<Rightarrow> Mode \<Rightarrow> SkImageInfo \<Rightarrow> event list \<Rightarrow>
   (GrTextureProxy \<times> SkIPoint \<times> SkIRect) option outcome \<times> event list" where
  "decimate b ctx src srcOffset contentRect scaleFactorX scaleFactorY willBeXFiltering
     willBeYFiltering radiusX radiusY mode dstII evs =
     (if SK_DEBUG b \<and> \<not> (SkIsPow2 scaleFactorX \<and> SkIsPow2 scaleFactorY) then (Aborted, evs)
      else if SK_DEBUG b \<and> \<not> (scaleFactorX > 1 \<or> scaleFactorY > 1) then (Aborted, evs)
      else
       (case get_blur_config b src (ii_colorSpace dstII) of
          Aborted \<Rightarrow> (Aborted, evs)
        | Returned config \<Rightarrow>
           if scaleFactorX = 0 \<or> scaleFactorY = 0 then (Aborted, evs)
           else
            (let srcRect0 = (if kIgnore_Mode = mode then SkImageInfo_bounds dstII
                             else SkIRect_offset contentRect srcOffset);
                 srcRect = scale_irect
                             (scale_irect_roundout srcRect0 (1.0 / real_of_int scaleFactorX)
                                (1.0 / real_of_int scaleFactorY))
                             scaleFactorX scaleFactorY;
                 dstRect = srcRect
             in (case decimate_loop b ctx config (ii_colorSpace dstII) contentRect scaleFactorX
                        scaleFactorY mode 0
                        \<lparr>ds_src = src, ds_srcOffset = srcOffset, ds_srcRect = srcRect,
                         ds_dstRect = dstRect, ds_dstRenderTargetContext = None\<rparr> evs of
                   (Aborted, evs1) \<Rightarrow> (Aborted, evs1)
                 | (Returned None, evs1) \<Rightarrow> (Returned None, evs1)
                 | (Returned (Some st), evs1) \<Rightarrow>
                    (let contentRect1 = ds_dstRect st
                     in (case ds_dstRenderTargetContext st of
                           None \<Rightarrow> (Aborted, evs1)
                         | Some dstRenderTargetContext \<Rightarrow>
                            (let evs2 =
                               (if willBeXFiltering then
                                  (if scaleFactorX > 1 then
                                     absClear dstRenderTargetContext
                                       (SkIRect_MakeXYWH (fRight contentRect1) (fTop contentRect1)
                                          radiusX (SkIRect_height contentRect1)) evs1
                                   else evs1)
                                else
                                  (if scaleFactorY > 1 then
                                     absClear dstRenderTargetContext
                                       (SkIRect_MakeXYWH (fLeft contentRect1) (fBottom contentRect1)
                                          (SkIRect_width contentRect1) radiusY) evs1
                                   else evs1))
                             in (case asTextureProxyRef ctx dstRenderTargetContext evs2 of
                                   (None, evs3) \<Rightarrow> (Returned None, evs3)
                                 | (Some proxy, evs3) \<Rightarrow>
                                     (Returned (Some (proxy, ds_srcOffset st, contentRect1)),
                                      evs3)))))))))"

subsection \<open>Re-expansion\<close>

definition reexpand ::
  "build \<Rightarrow> GrContext \<Rightarrow> GrRenderTargetContext \<Rightarrow> SkIRect \<Rightarrow> int \<Rightarrow> int \<Rightarrow> Mode \<Rightarrow> SkImageInfo \<Rightarrow>
   SkBackingFit \<Rightarrow> event list \<Rightarrow> GrRenderTargetContext option outcome \<times> event list" where
  "reexpand b ctx srcRenderTargetContext localSrcBounds scaleFactorX scaleFactorY mode dstII
     fit evs =
     (let srcRect = SkIRect_MakeWH (rtc_width srcRenderTargetContext)
                      (rtc_height srcRenderTargetContext);
          evs1 = absClear srcRenderTargetContext
                   (SkIRect_MakeXYWH (fLeft srcRect) (fBottom srcRect) (SkIRect_width srcRect + 1) 1)
                   evs;
          evs2 = absClear srcRenderTargetContext
                   (SkIRect_MakeXYWH (fRight srcRect) (fTop srcRect) 1 (SkIRect_height srcRect))
                   evs1
      in (case asTextureProxyRef ctx srcRenderTargetContext evs2 of
            (None, evs3) \<Rightarrow> (Returned None, evs3)
          | (Some srcProxy, evs3) \<Rightarrow>
             (case get_blur_config b srcProxy (ii_colorSpace dstII) of
                Aborted \<Rightarrow> (Aborted, evs3)
              | Returned config \<Rightarrow>
                 (case makeDeferredRenderTargetContext ctx fit (ii_width dstII)
                         (ii_height dstII) config (ii_colorSpace dstII) evs3 of
                    (None, evs4) \<Rightarrow> (Returned None, evs4)
                  | (Some dstRenderTargetContext, evs4) \<Rightarrow>
                     (let fp =
                        (if kIgnore_Mode \<noteq> mode then
                           (let modeForScaling = (if kRepeat_Mode = mode then kDecal_Mode else mode);
                                domain = SkRect_Make localSrcBounds
                            in GrTextureDomainEffect_Make srcProxy SkMatrix_I domain modeForScaling
                                 kBilerp)
                         else ColorTextureProcessor srcProxy SkMatrix_I ClampBilerp);
                          paint = \<lparr>gammaCorrect = isGammaCorrect dstRenderTargetContext,
                                   colorFragmentProcessor = fp, xpFactory = kSrc\<rparr>;
                          clip = SkImageInfo_bounds dstII;
                          dstRect = scale_irect srcRect scaleFactorX scaleFactorY
                      in (Returned (Some dstRenderTargetContext),
                          fillRectToRect dstRenderTargetContext clip paint (SkRect_Make dstRect)
                            (SkRect_Make srcRect) evs4))))))"

subsection \<open>The orchestrator\<close>

text \<open>
  The local variables of the separable path of \<^verbatim>\<open>GaussianBlur\<close> that one stage hands to
  the next: \<^verbatim>\<open>srcProxy\<close>, \<^verbatim>\<open>srcOffset\<close>, \<^verbatim>\<open>localSrcBounds\<close>, \<^verbatim>\<open>srcRect\<close> and
  \<^verbatim>\<open>dstRenderTargetContext\<close> (null until a pass has run).
\<close>

record blur_state =
  bs_srcProxy :: GrTextureProxy
  bs_srcOffset :: SkIPoint
  bs_localSrcBounds :: SkIRect
  bs_srcRect :: SkIRect
  bs_dstRenderTargetContext :: "GrRenderTargetContext option"

text \<open>The body of \<^verbatim>\<open>if (sigmaX > 0.0f)\<close>: the X pass.\<close>

definition GaussianBlur_x_pass ::
  "build \<Rightarrow> GrContext \<Rightarrow> int \<Rightarrow> real \<Rightarrow> int \<Rightarrow> real \<Rightarrow> Mode \<Rightarrow> SkImageInfo \<Rightarrow> SkBackingFit \<Rightarrow>
   blur_state \<Rightarrow> event list \<Rightarrow> blur_state option outcome \<times> event list" where
  "GaussianBlur_x_pass b ctx radiusX sigmaX radiusY sigmaY mode finalDestII xFit st evs =
     (case convolve_gaussian b ctx (bs_srcProxy st) (bs_srcRect st) (bs_srcOffset st) kX radiusX
             sigmaX (bs_localSrcBounds st) mode finalDestII xFit evs of
        (Aborted, evs1) \<Rightarrow> (Aborted, evs1)
      | (Returned None, evs1) \<Rightarrow> (Returned None, evs1)
      | (Returned (Some dstRenderTargetContext), evs1) \<Rightarrow>
         (let srcRect = bs_srcRect st;
              evs2 = (if sigmaY > 0.0 then
                        absClear dstRenderTargetContext
                          (SkIRect_MakeXYWH (fLeft srcRect) (fBottom srcRect) (SkIRect_width srcRect)
                             radiusY) evs1
                      else evs1)
          in (case asTextureProxyRef ctx dstRenderTargetContext evs2 of
                (None, evs3) \<Rightarrow> (Returned None, evs3)
              | (Some srcProxy, evs3) \<Rightarrow>
                 (let srcRect1 = SkIRect_offsetTo srcRect 0 0;
                      localSrcBounds = (if kClamp_Mode = mode then SkIRect_inset srcRect1 0 radiusY
                                        else srcRect1)
                  in (Returned (Some \<lparr>bs_srcProxy = srcProxy, bs_srcOffset = SkIPoint_Make 0 0,
                                        bs_localSrcBounds = localSrcBounds, bs_srcRect = srcRect1,
                                        bs_dstRenderTargetContext = Some dstRenderTargetContext\<rparr>),
                      evs3)))))"

text \<open>The body of \<^verbatim>\<open>if (sigmaY > 0.0f)\<close>: the Y pass.\<close>

definition GaussianBlur_y_pass ::
  "build \<Rightarrow> GrContext \<Rightarrow> int \<Rightarrow> real \<Rightarrow> Mode \<Rightarrow> SkImageInfo \<Rightarrow> SkBackingFit \<Rightarrow>
   blur_state \<Rightarrow> event list \<Rightarrow> blur_state option outcome \<times> event list" where
  "GaussianBlur_y_pass b ctx radiusY sigmaY mode finalDestII yFit st evs =
     (case convolve_gaussian b ctx (bs_srcProxy st) (bs_srcRect st) (bs_srcOffset st) kY radiusY
             sigmaY (bs_localSrcBounds st) mode finalDestII yFit evs of
        (Aborted, evs1) \<Rightarrow> (Aborted, evs1)
      | (Returned None, evs1) \<Rightarrow> (Returned None, evs1)
      | (Returned (Some dstRenderTargetContext), evs1) \<Rightarrow>
         (case asTextureProxyRef ctx dstRenderTargetContext evs1 of
            (None, evs2) \<Rightarrow> (Returned None, evs2)
          | (Some srcProxy, evs2) \<Rightarrow>
              (Returned (Some (st\<lparr>bs_srcProxy := srcProxy, bs_srcOffset := SkIPoint_Make 0 0,
                                    bs_srcRect := SkIRect_offsetTo (bs_srcRect st) 0 0,
                                    bs_dstRenderTargetContext := Some dstRenderTargetContext\<rparr>)),
               evs2)))"

text \<open>
  The general path of \<^verbatim>\<open>GaussianBlur\<close>, from the choice of \<^verbatim>\<open>xFit\<close> and \<^verbatim>\<open>yFit\<close> to the
  final \<^verbatim>\<open>return\<close>: decimation when a scale factor exceeds 1, the X pass, the Y pass,
  re-expansion when a scale factor exceeds 1. When no pass has run,
  \<^verbatim>\<open>dstRenderTargetContext\<close> is null: the debug build stops at its assertion and
  \<^verbatim>\<open>reexpand\<close> would dereference it.
\<close>

definition GaussianBlur_separable ::
  "build \<Rightarrow> GrContext \<Rightarrow> GrTextureProxy \<Rightarrow> SkIRect \<Rightarrow> SkIPoint \<Rightarrow> real \<Rightarrow> real \<Rightarrow> int \<Rightarrow> int \<Rightarrow>
   int \<Rightarrow> int \<Rightarrow> Mode \<Rightarrow> SkImageInfo \<Rightarrow> SkBackingFit \<Rightarrow> event list \<Rightarrow>
   GrRenderTargetContext option outcome \<times> event list" where
  "GaussianBlur_separable b ctx srcProxy srcBounds srcOffset sigmaX sigmaY scaleFactorX
     scaleFactorY radiusX radiusY mode finalDestII fit evs =
     (let xFit = (if scaleFactorX > 1 \<or> scaleFactorY > 1 then kApprox
                  else if sigmaY > 0.0 then kApprox else fit);
          yFit = (if scaleFactorX > 1 \<or> scaleFactorY > 1 then kApprox else fit)
      in (case (if scaleFactorX > 1 \<or> scaleFactorY > 1 then
                  decimate b ctx srcProxy srcOffset srcBounds scaleFactorX scaleFactorY
                    (sigmaX > 0.0) (sigmaY > 0.0) radiusX radiusY mode finalDestII evs
                else (Returned (Some (srcProxy, srcOffset, srcBounds)), evs)) of
            (Aborted, evs1) \<Rightarrow> (Aborted, evs1)
          | (Returned None, evs1) \<Rightarrow> (Returned None, evs1)
          | (Returned (Some (srcProxy1, srcOffset1, localSrcBounds)), evs1) \<Rightarrow>
             if scaleFactorX = 0 \<or> scaleFactorY = 0 then (Aborted, evs1)
             else
              (let srcRect = scale_irect_roundout (SkImageInfo_bounds finalDestII)
                               (1.0 / real_of_int scaleFactorX) (1.0 / real_of_int scaleFactorY);
                   st0 = \<lparr>bs_srcProxy = srcProxy1, bs_srcOffset = srcOffset1,
                          bs_localSrcBounds = localSrcBounds, bs_srcRect = srcRect,
                          bs_dstRenderTargetContext = None\<rparr>
               in (case (if sigmaX > 0.0 then
                           GaussianBlur_x_pass b ctx radiusX sigmaX radiusY sigmaY mode finalDestII
                             xFit st0 evs1
                         else (Returned (Some st0), evs1)) of
                     (Aborted, evs2) \<Rightarrow> (Aborted, evs2)
                   | (Returned None, evs2) \<Rightarrow> (Returned None, evs2)
                   | (Returned (Some st1), evs2) \<Rightarrow>
                      (case (if sigmaY > 0.0 then
                               GaussianBlur_y_pass b ctx radiusY sigmaY mode finalDestII yFit st1 evs2
                             else (Returned (Some st1), evs2)) of
                         (Aborted, evs3) \<Rightarrow> (Aborted, evs3)
                       | (Returned None, evs3) \<Rightarrow> (Returned None, evs3)
                       | (Returned (Some st2), evs3) \<Rightarrow>
                          (case bs_dstRenderTargetContext st2 of
                             None \<Rightarrow>
                               if SK_DEBUG b then (Aborted, evs3)
                               else if scaleFactorX > 1 \<or> scaleFactorY > 1 then (Aborted, evs3)
                               else (Returned None, evs3)
                           | Some dstRenderTargetContext \<Rightarrow>
                               if SK_DEBUG b \<and>
                                  \<not> proxy_id (bs_srcProxy st2) = rtc_id dstRenderTargetContext
                               then (Aborted, evs3)
                               else if scaleFactorX > 1 \<or> scaleFactorY > 1 then
                                 reexpand b ctx dstRenderTargetContext (bs_localSrcBounds st2)
                                   scaleFactorX scaleFactorY mode finalDestII fit evs3
                               else (Returned (Some dstRenderTargetContext), evs3)))))))"

text \<open>
  \<^verbatim>\<open>SkGpuBlurUtils::GaussianBlur\<close>. The context is always present, so \<^verbatim>\<open>SkASSERT(context)\<close>
  holds.
\<close>

definition GaussianBlur ::
  "build \<Rightarrow> GrContext \<Rightarrow> GrTextureProxy \<Rightarrow> SkColorSpace option \<Rightarrow> SkIRect \<Rightarrow> SkIRect \<Rightarrow> real \<Rightarrow>
   real \<Rightarrow> Mode \<Rightarrow> SkAlphaType \<Rightarrow> SkBackingFit \<Rightarrow> event list \<Rightarrow>
   GrRenderTargetContext option outcome \<times> event list" where
  "GaussianBlur b ctx srcProxy colorSpace dstBounds srcBounds sigmaX sigmaY mode alphaType fit evs =
     (case get_blur_config b srcProxy colorSpace of
        Aborted \<Rightarrow> (Aborted, evs)
      | Returned config \<Rightarrow>
         (case GrPixelConfigToColorType b config of
            None \<Rightarrow> (Returned None, evs)
          | Some ct \<Rightarrow>
             (let finalDestII = SkImageInfo_Make (SkIRect_width dstBounds) (SkIRect_height dstBounds)
                                  ct alphaType colorSpace
              in (case adjust_sigma b sigmaX (caps_maxTextureSize ctx) of
                    Aborted \<Rightarrow> (Aborted, evs)
                  | Returned (sigmaX1, scaleFactorX, radiusX) \<Rightarrow>
                     (case adjust_sigma b sigmaY (caps_maxTextureSize ctx) of
                        Aborted \<Rightarrow> (Aborted, evs)
                      | Returned (sigmaY1, scaleFactorY, radiusY) \<Rightarrow>
                         if SK_DEBUG b \<and> \<not> (sigmaX1 \<noteq> 0 \<or> sigmaY1 \<noteq> 0) then (Aborted, evs)
                         else
                          (let srcOffset = SkIPoint_Make (- fLeft dstBounds) (- fTop dstBounds)
                           in if sigmaX1 > 0.0 \<and> sigmaY1 > 0.0 \<and>
                                 (2 * radiusX + 1) * (2 * radiusY + 1) \<le> MAX_KERNEL_SIZE b
                              then
                                (if SK_DEBUG b \<and> \<not> (1 = scaleFactorX \<and> 1 = scaleFactorY)
                                 then (Aborted, evs)
                                 else convolve_gaussian_2d b ctx srcProxy srcBounds srcOffset
                                        radiusX radiusY sigmaX1 sigmaY1 mode finalDestII fit evs)
                              else GaussianBlur_separable b ctx srcProxy srcBounds srcOffset sigmaX1
                                     sigmaY1 scaleFactorX scaleFactorY radiusX radiusY mode
                                     finalDestII fit evs))))))"

subsection \<open>Reading the log\<close>

text \<open>A request the renderer refused: an allocation or a texture reference that came back null.\<close>

fun failed :: "event \<Rightarrow> bool" where
  "failed (MakeDeferredRenderTargetContext fit w h config cs ok) = (\<not> ok)"
| "failed (AsTextureProxyRef r ok) = (\<not> ok)"
| "failed (Clear r rect) = False"
| "failed (AbsClear r rect) = False"
| "failed (FillRectWithLocalMatrix r clip paint rect m) = False"
| "failed (FillRectToRect r clip paint dst src) = False"

text \<open>The paint of a draw, and the fragment processors of all draws of a log.\<close>

fun paint_of :: "event \<Rightarrow> GrPaint option" where
  "paint_of (FillRectWithLocalMatrix r clip paint rect m) = Some paint"
| "paint_of (FillRectToRect r clip paint dst src) = Some paint"
| "paint_of (MakeDeferredRenderTargetContext fit w h config cs ok) = None"
| "paint_of (AsTextureProxyRef r ok) = None"
| "paint_of (Clear r rect) = None"
| "paint_of (AbsClear r rect) = None"

definition drawn_effects :: "event list \<Rightarrow> GrFragmentProcessor list" where
  "drawn_effects evs = map colorFragmentProcessor (List.map_filter paint_of evs)"

text \<open>The modes of the texture-domain effects (domain-restricted bilinear sampling).\<close>

fun domain_mode :: "GrFragmentProcessor \<Rightarrow> Mode option" where
  "domain_mode (GrTextureDomainEffect_Make proxy m domain mode flt) = Some mode"
| "domain_mode (GrGaussianConvolutionFragmentProcessor_Make proxy d r s mode bounds) = None"
| "domain_mode (GrMatrixConvolutionEffect_MakeGaussian proxy sb sz g bi ko mode ca sx sy) = None"
| "domain_mode (ColorTextureProcessor proxy m sampler) = None"

definition domain_modes :: "event list \<Rightarrow> Mode list" where
  "domain_modes evs = List.map_filter domain_mode (drawn_effects evs)"

text \<open>Whether a draw of the log applies the fused 2-D convolution.\<close>

fun is_2d_convolution :: "GrFragmentProcessor \<Rightarrow> bool" where
  "is_2d_convolution (GrMatrixConvolutionEffect_MakeGaussian proxy sb sz g bi ko mode ca sx sy) = True"
| "is_2d_convolution (GrGaussianConvolutionFragmentProcessor_Make proxy d r s mode bounds) = False"
| "is_2d_convolution (GrTextureDomainEffect_Make proxy m domain mode flt) = False"
| "is_2d_convolution (ColorTextureProcessor proxy m sampler) = False"

definition draws_2d_convolution :: "event list \<Rightarrow> bool" where
  "draws_2d_convolution evs = list_ex is_2d_convolution (drawn_effects evs)"

text \<open>The pixel configs of the surfaces the log asks the renderer to allocate.\<close>

fun allocated_config :: "event \<Rightarrow> GrPixelConfig option" where
  "allocated_config (MakeDeferredRenderTargetContext fit w h config cs ok) = Some config"
| "allocated_config (AsTextureProxyRef r ok) = None"
| "allocated_config (Clear r rect) = None"
| "allocated_config (AbsClear r rect) = None"
| "allocated_config (FillRectWithLocalMatrix r clip paint rect m) = None"
| "allocated_config (FillRectToRect r clip paint dst src) = None"

definition allocated_configs :: "event list \<Rightarrow> GrPixelConfig list" where
  "allocated_configs evs = List.map_filter allocated_config evs"

text \<open>The rectangles cleared on a render target, in the order of the log.\<close>

fun cleared_rect :: "event \<Rightarrow> (nat \<times> SkIRect) option" where
  "cleared_rect (Clear r rect) = Some (r, rect)"
| "cleared_rect (AbsClear r rect) = Some (r, rect)"
| "cleared_rect (MakeDeferredRenderTargetContext fit w h config cs ok) = None"
| "cleared_rect (AsTextureProxyRef r ok) = None"
| "cleared_rect (FillRectWithLocalMatrix r clip paint rect m) = None"
| "cleared_rect (FillRectToRect r clip paint dst src) = None"

definition cleared_rects :: "event list \<Rightarrow> (nat \<times> SkIRect) list" where
  "cleared_rects evs = List.map_filter cleared_rect evs"

text \<open>A log in which the renderer refused nothing.\<close>

definition no_failure :: "event list \<Rightarrow> bool" where
  "no_failure evs = list_all (\<lambda>e. \<not> failed e) evs"

text \<open>
  The pixel config \<^verbatim>\<open>get_blur_config\<close> chooses for a source config and a destination
  colour space, and the mode the scaling draws use for a blur mode.
\<close>

definition blur_config :: "build \<Rightarrow> SkColorSpace option \<Rightarrow> GrPixelConfig \<Rightarrow> GrPixelConfig" where
  "blur_config b cs config =
     (if GrPixelConfigIsSRGB b config \<and> cs = None then kRGBA_8888_GrPixelConfig else config)"

definition modeForScaling :: "Mode \<Rightarrow> Mode" where
  "modeForScaling mode = (if kRepeat_Mode = mode then kDecal_Mode else mode)"

text \<open>
  What the events \<open>new\<close> that a stage appends to the log have in common, for a blur
  with pixel config \<open>config\<close> and edge mode \<open>mode\<close>: a refused request is the last event
  and makes the result null, every texture-domain effect uses the mode for scaling,
  every allocation asks for \<open>config\<close>, and only the fused path draws a 2-D convolution.
\<close>

definition stage_log :: "GrPixelConfig \<Rightarrow> Mode \<Rightarrow> bool \<Rightarrow> 'a option outcome \<Rightarrow> event list \<Rightarrow> bool" where
  "stage_log config mode fused r new =
     (no_failure (butlast new) \<and> (\<not> no_failure new \<longrightarrow> r = Returned None) \<and>
      set (domain_modes new) \<subseteq> {modeForScaling mode} \<and>
      set (allocated_configs new) \<subseteq> {config} \<and>
      (draws_2d_convolution new \<longrightarrow> fused))"

definition stage_ok ::
  "GrPixelConfig \<Rightarrow> Mode \<Rightarrow> bool \<Rightarrow> event list \<Rightarrow> 'a option outcome \<times> event list \<Rightarrow> bool" where
  "stage_ok config mode fused evs res =
     (\<exists>new. snd res = evs @ new \<and> stage_log config mode fused (fst res) new)"

subsection \<open>Values for evaluating the model\<close>

text \<open>
  A build with the values the parameters have in Skia: \<^verbatim>\<open>kMaxKernelRadius\<close> is 12,
  \<^verbatim>\<open>MAX_KERNEL_SIZE\<close> is 25 (the comment in \<^verbatim>\<open>GaussianBlur\<close> speaks of kernels no wider than
  5x5), the sRGB configs are the two whose names start with \<^verbatim>\<open>kS\<close>, and every config
  that \<^verbatim>\<open>get_blur_config\<close> names has a colour type.
\<close>

definition skia_build :: "bool \<Rightarrow> build" where
  "skia_build debug =
     \<lparr>SK_DEBUG = debug, kMaxKernelRadius = 12, MAX_KERNEL_SIZE = 25,
      GrPixelConfigIsSRGB = (\<lambda>c. c = kSRGBA_8888_GrPixelConfig \<or> c = kSBGRA_8888_GrPixelConfig),
      GrPixelConfigToColorType =
        (\<lambda>c. case c of
           kBGRA_8888_GrPixelConfig \<Rightarrow> Some kBGRA_8888_SkColorType
         | kRGBA_8888_GrPixelConfig \<Rightarrow> Some kRGBA_8888_SkColorType
         | kRGB_888_GrPixelConfig \<Rightarrow> Some kRGB_888x_SkColorType
         | kRGBA_4444_GrPixelConfig \<Rightarrow> Some kARGB_4444_SkColorType
         | kRGB_565_GrPixelConfig \<Rightarrow> Some kRGB_565_SkColorType
         | kSRGBA_8888_GrPixelConfig \<Rightarrow> Some kRGBA_8888_SkColorType
         | kSBGRA_8888_GrPixelConfig \<Rightarrow> Some kBGRA_8888_SkColorType
         | kRGBA_half_GrPixelConfig \<Rightarrow> Some kRGBA_F16_SkColorType
         | kAlpha_8_GrPixelConfig \<Rightarrow> Some kAlpha_8_SkColorType
         | kRGBA_1010102_GrPixelConfig \<Rightarrow> Some kRGBA_1010102_SkColorType
         | kOther_GrPixelConfig n \<Rightarrow> None)\<rparr>"

text \<open>A context whose renderer grants every request, and one that refuses the request
  at one position of the log.\<close>

definition granting_context :: "int \<Rightarrow> GrContext" where
  "granting_context m = \<lparr>caps_maxTextureSize = m, request_succeeds = (\<lambda>n. True)\<rparr>"

definition refusing_context :: "int \<Rightarrow> nat \<Rightarrow> GrContext" where
  "refusing_context m k = \<lparr>caps_maxTextureSize = m, request_succeeds = (\<lambda>n. n \<noteq> k)\<rparr>"

text \<open>A source texture of the given pixel config.\<close>

definition source_texture :: "GrPixelConfig \<Rightarrow> GrTextureProxy" where
  "source_texture config = \<lparr>proxy_id = 0, proxy_config = config\<rparr>"

section \<open>The sigma planner: properties\<close>

subsection \<open>The three cases of the loop\<close>

lemma adjust_sigma_loop_stop:
  "\<not> sigma > MAX_BLUR_SIGMA \<Longrightarrow> adjust_sigma_loop sigma m s = (sigma, s)"
  by (subst adjust_sigma_loop.simps) simp

lemma adjust_sigma_loop_clamp:
  "sigma > MAX_BLUR_SIGMA \<Longrightarrow> s * 2 > m \<Longrightarrow> adjust_sigma_loop sigma m s = (MAX_BLUR_SIGMA, m)"
  by (subst adjust_sigma_loop.simps, simp, subst adjust_sigma_loop.simps, simp)

lemma adjust_sigma_loop_step:
  "sigma > MAX_BLUR_SIGMA \<Longrightarrow> \<not> s * 2 > m \<Longrightarrow>
   adjust_sigma_loop sigma m s = adjust_sigma_loop (sigma * 0.5) m (s * 2)"
  by (subst adjust_sigma_loop.simps) simp


subsection \<open>The adjusted sigma is at most 4, the radius at most 12\<close>





subsection \<open>The scale factor\<close>

lemma adjust_sigma_loop_scale_bounds:
  "0 < s \<Longrightarrow> s \<le> m \<Longrightarrow>
   s \<le> snd (adjust_sigma_loop sigma m s) \<and> snd (adjust_sigma_loop sigma m s) \<le> m"
proof (induction sigma m s rule: adjust_sigma_loop.induct)
  case (1 sigma m s)
  show ?case
  proof (cases "sigma > MAX_BLUR_SIGMA")
    case False
    then show ?thesis using "1.prems" by (simp add: adjust_sigma_loop_stop)
  next
    case True
    show ?thesis
    proof (cases "s * 2 > m")
      case c: True
      then show ?thesis using True "1.prems" by (simp add: adjust_sigma_loop_clamp)
    next
      case c: False
      have "s * 2 \<le> snd (adjust_sigma_loop (sigma * 0.5) m (s * 2)) \<and>
            snd (adjust_sigma_loop (sigma * 0.5) m (s * 2)) \<le> m"
        using "1.IH"(2) [OF True c] "1.prems" c by simp
      then show ?thesis using True c "1.prems" by (simp add: adjust_sigma_loop_step)
    qed
  qed
qed


text \<open>
  What does hold of the scale factor: it lies between 1 and a positive
  \<open>maxTextureSize\<close>, and it is a power of two when \<open>maxTextureSize\<close> is one.
\<close>

lemma adjust_sigma_loop_pow2:
  "\<exists>k. snd (adjust_sigma_loop sigma (2 ^ n) (2 ^ j)) = (2::int) ^ k"
proof (induction sigma "(2::int) ^ n" "(2::int) ^ j" arbitrary: j rule: adjust_sigma_loop.induct)
  case (1 sigma)
  show ?case
  proof (cases "sigma > MAX_BLUR_SIGMA")
    case False
    then show ?thesis by (auto simp: adjust_sigma_loop_stop)
  next
    case True
    show ?thesis
    proof (cases "(2::int) ^ j * 2 > 2 ^ n")
      case c: True
      then show ?thesis using True by (auto simp: adjust_sigma_loop_clamp)
    next
      case c: False
      have "\<exists>k. snd (adjust_sigma_loop (sigma * 0.5) (2 ^ n) (2 ^ Suc j)) = (2::int) ^ k"
        using "1.hyps"(2) [OF True c, of "Suc j"] by simp
      then show ?thesis using True c by (simp add: adjust_sigma_loop_step mult.commute)
    qed
  qed
qed

lemma adjust_sigma_scale_factor:
  assumes "adjust_sigma b sigma m = Returned (sigma1, scaleFactor, radius)"
  shows "0 < m \<Longrightarrow> 1 \<le> scaleFactor \<and> scaleFactor \<le> m"
    and "m = 2 ^ n \<Longrightarrow> \<exists>k. scaleFactor = 2 ^ k"
proof -
  have sf: "scaleFactor = snd (adjust_sigma_loop sigma m 1)"
    using assms by (auto simp: adjust_sigma_def Let_def split: prod.splits if_splits)
  show "0 < m \<Longrightarrow> 1 \<le> scaleFactor \<and> scaleFactor \<le> m"
    using adjust_sigma_loop_scale_bounds [of 1 m sigma] sf by simp
  show "m = 2 ^ n \<Longrightarrow> \<exists>k. scaleFactor = 2 ^ k"
    using adjust_sigma_loop_pow2 [of sigma n 0] sf by simp
qed

text \<open>
  No doubling overflows: from the initial scale factor 1 and a positive
  \<open>maxTextureSize\<close> below \<open>2 ^ 30\<close>, every value the loop stores is a positive 32-bit
  \<^verbatim>\<open>int\<close>.
\<close>

lemma adjust_sigma_doubled_in_range:
  "0 < s \<Longrightarrow> s \<le> m \<Longrightarrow> m < 2 ^ 30 \<Longrightarrow>
   \<forall>v \<in> set (adjust_sigma_doubled sigma m s). 0 < v \<and> v < 2 ^ 31"
proof (induction sigma m s rule: adjust_sigma_doubled.induct)
  case (1 sigma m s)
  show ?case
  proof (cases "sigma > MAX_BLUR_SIGMA")
    case False
    then show ?thesis by (subst adjust_sigma_doubled.simps) simp
  next
    case True
    have d: "0 < s * 2 \<and> s * 2 < 2 ^ 31" using "1.prems" by simp
    show ?thesis
    proof (cases "s * 2 > m")
      case c: True
      have "\<forall>v \<in> set (adjust_sigma_doubled MAX_BLUR_SIGMA m m). 0 < v \<and> v < 2 ^ 31"
        using "1.IH"(1) [OF True c] "1.prems" by simp
      then show ?thesis using True c d by (subst adjust_sigma_doubled.simps) simp
    next
      case c: False
      have "\<forall>v \<in> set (adjust_sigma_doubled (sigma * 0.5) m (s * 2)). 0 < v \<and> v < 2 ^ 31"
        using "1.IH"(2) [OF True c] "1.prems" c by simp
      then show ?thesis using True c d by (subst adjust_sigma_doubled.simps) simp
    qed
  qed
qed

subsection \<open>The claims about the planner\<close>



text \<open>
  C4. The scale factor is not always a power of two: with \<open>maxTextureSize = 3\<close> and
  sigma 16 the loop doubles to 2, then to 4, which exceeds 3, and clamps the scale
  factor to 3; with \<open>maxTextureSize = 1000\<close> and sigma 8192 it doubles up to 1024 and
  clamps to 1000. \<^verbatim>\<open>decimate\<close> asserts that both scale factors are powers of two, so the
  debug build of \<^verbatim>\<open>GaussianBlur\<close> stops at that assertion.
\<close>

theorem adjust_sigma_scale_factor_3:
  "adjust_sigma (skia_build debug) 16 3 = Returned (4, 3, 12) \<and>
   \<not> SkIsPow2 3 \<and>
   adjust_sigma (skia_build debug) 8192 1000 = Returned (4, 1000, 12) \<and>
   \<not> SkIsPow2 1000 \<and>
   fst (GaussianBlur (skia_build True) (granting_context 3)
          (source_texture kRGBA_8888_GrPixelConfig) None (SkIRect_MakeWH 200 200)
          (SkIRect_MakeLTRB 50 50 150 150) 16 16 kClamp_Mode kPremul_SkAlphaType kExact []) = Aborted"
  by (simp add: GaussianBlur_def GaussianBlur_separable_def decimate_def get_blur_config_def
      source_texture_def granting_context_def adjust_sigma_def adjust_sigma_loop.simps
      MAX_BLUR_SIGMA_def skia_build_def SkIsPow2_def)

theorem adjust_sigma_scale_factor_3_witness:
  "adjust_sigma (skia_build False) 16 3 = Returned (4, 3, 12) \<and>
   adjust_sigma (skia_build True) 8192 1000 = Returned (4, 1000, 12)"
  using adjust_sigma_scale_factor_3 [of False] adjust_sigma_scale_factor_3 [of True]
  by simp






section \<open>The log of a blur\<close>

subsection \<open>Reading a log piece by piece\<close>

lemma no_failure_simps [simp]:
  "no_failure []"
  "no_failure (xs @ ys) = (no_failure xs \<and> no_failure ys)"
  "no_failure (e # xs) = (\<not> failed e \<and> no_failure xs)"
  by (simp_all add: no_failure_def)

lemma no_failure_butlast: "no_failure evs \<Longrightarrow> no_failure (butlast evs)"
  by (induction evs) auto

lemma reader_append [simp]:
  "drawn_effects (xs @ ys) = drawn_effects xs @ drawn_effects ys"
  "domain_modes (xs @ ys) = domain_modes xs @ domain_modes ys"
  "allocated_configs (xs @ ys) = allocated_configs xs @ allocated_configs ys"
  "cleared_rects (xs @ ys) = cleared_rects xs @ cleared_rects ys"
  by (simp_all add: drawn_effects_def domain_modes_def allocated_configs_def cleared_rects_def
      map_filter_def)

lemma draws_2d_convolution_append [simp]:
  "draws_2d_convolution (xs @ ys) = (draws_2d_convolution xs \<or> draws_2d_convolution ys)"
  by (auto simp: draws_2d_convolution_def list_ex_iff)

lemma reader_Nil [simp]:
  "drawn_effects [] = []" "domain_modes [] = []" "allocated_configs [] = []"
  "cleared_rects [] = []" "\<not> draws_2d_convolution []"
  by (simp_all add: drawn_effects_def domain_modes_def allocated_configs_def cleared_rects_def
      draws_2d_convolution_def map_filter_simps)

lemma reader_Cons [simp]:
  "drawn_effects (e # xs) =
     (case paint_of e of None \<Rightarrow> drawn_effects xs
      | Some paint \<Rightarrow> colorFragmentProcessor paint # drawn_effects xs)"
  "allocated_configs (e # xs) =
     (case allocated_config e of None \<Rightarrow> allocated_configs xs | Some c \<Rightarrow> c # allocated_configs xs)"
  "cleared_rects (e # xs) =
     (case cleared_rect e of None \<Rightarrow> cleared_rects xs | Some c \<Rightarrow> c # cleared_rects xs)"
  by (simp_all add: drawn_effects_def allocated_configs_def cleared_rects_def map_filter_simps
      split: option.splits)

lemma domain_modes_Cons [simp]:
  "domain_modes (e # xs) =
     (case paint_of e of None \<Rightarrow> domain_modes xs
      | Some paint \<Rightarrow>
         (case domain_mode (colorFragmentProcessor paint) of None \<Rightarrow> domain_modes xs
          | Some m \<Rightarrow> m # domain_modes xs))"
  by (simp add: domain_modes_def drawn_effects_def map_filter_simps split: option.splits)

lemma draws_2d_convolution_Cons [simp]:
  "draws_2d_convolution (e # xs) =
     ((case paint_of e of None \<Rightarrow> False | Some paint \<Rightarrow> is_2d_convolution (colorFragmentProcessor paint))
      \<or> draws_2d_convolution xs)"
  by (simp add: draws_2d_convolution_def drawn_effects_def map_filter_simps split: option.splits)

lemma stage_ok_same [simp]: "stage_ok config mode fused evs (r, evs)"
  by (simp add: stage_ok_def stage_log_def)

lemma stage_ok_trans:
  "stage_ok config mode fused evs (Returned (Some x), evs1) \<Longrightarrow>
   stage_ok config mode fused evs1 res \<Longrightarrow> stage_ok config mode fused evs res"
  by (auto simp: stage_ok_def stage_log_def butlast_append no_failure_butlast split: if_splits)

subsection \<open>What each stage appends to the log\<close>

lemmas renderer_defs =
  makeDeferredRenderTargetContext_def asTextureProxyRef_def clear_def absClear_def
  fillRectWithLocalMatrix_def fillRectToRect_def convolve_gaussian_1d_def

lemma convolve_gaussian_stage:
  "blur_config b (ii_colorSpace dstII) (proxy_config proxy) = config \<Longrightarrow>
   stage_ok config mode fused evs
     (convolve_gaussian b ctx proxy srcRect srcOffset direction radius sigma srcBounds mode dstII fit evs) \<and>
   (\<forall>rtc. fst (convolve_gaussian b ctx proxy srcRect srcOffset direction radius sigma srcBounds mode dstII fit evs)
           = Returned (Some rtc) \<longrightarrow> rtc_config rtc = config)"
  by (auto simp: convolve_gaussian_def stage_ok_def stage_log_def renderer_defs Let_def
      get_blur_config_def blur_config_def
      split: outcome.splits option.splits prod.splits if_splits)

lemma blur_config_idem [simp]: "blur_config b cs (blur_config b cs c) = blur_config b cs c"
  by (simp add: blur_config_def)

lemma convolve_gaussian_2d_stage:
  "blur_config b (ii_colorSpace dstII) (proxy_config proxy) = config \<Longrightarrow>
   stage_ok config mode True evs
     (convolve_gaussian_2d b ctx proxy srcBounds srcOffset rx ry sx sy mode dstII fit evs)"
  by (auto simp: convolve_gaussian_2d_def stage_ok_def stage_log_def renderer_defs Let_def
      get_blur_config_def blur_config_def
      split: outcome.splits option.splits prod.splits if_splits)

lemma reexpand_stage:
  "blur_config b (ii_colorSpace dstII) (rtc_config src) = config \<Longrightarrow>
   stage_ok config mode fused evs (reexpand b ctx src lsb sfx sfy mode dstII fit evs)"
  by (auto simp: reexpand_def stage_ok_def stage_log_def renderer_defs Let_def
      get_blur_config_def blur_config_def modeForScaling_def
      split: outcome.splits option.splits prod.splits if_splits)

lemma decimate_step_stage:
  "stage_ok config mode fused evs (decimate_step b ctx config cs contentRect sfx sfy mode i st evs) \<and>
   cleared_rects (snd (decimate_step b ctx config cs contentRect sfx sfy mode i st evs)) = cleared_rects evs \<and>
   (\<forall>st1. fst (decimate_step b ctx config cs contentRect sfx sfy mode i st evs) = Returned (Some st1) \<longrightarrow>
      (\<exists>rtc. ds_dstRenderTargetContext st1 = Some rtc \<and> rtc_config rtc = config))"
  by (auto simp: decimate_step_def stage_ok_def stage_log_def renderer_defs Let_def
      modeForScaling_def
      split: outcome.splits option.splits prod.splits if_splits)

lemma decimate_loop_stop:
  "\<not> (2 ^ k < sfx \<or> 2 ^ k < sfy) \<Longrightarrow>
   decimate_loop b ctx config cs contentRect sfx sfy mode k st evs = (Returned (Some st), evs)"
  by (subst decimate_loop.simps) simp

lemma decimate_loop_step:
  "2 ^ k < sfx \<or> 2 ^ k < sfy \<Longrightarrow>
   decimate_loop b ctx config cs contentRect sfx sfy mode k st evs =
     (case decimate_step b ctx config cs contentRect sfx sfy mode (2 ^ k) st evs of
        (Aborted, evs1) \<Rightarrow> (Aborted, evs1)
      | (Returned None, evs1) \<Rightarrow> (Returned None, evs1)
      | (Returned (Some st1), evs1) \<Rightarrow>
          decimate_loop b ctx config cs contentRect sfx sfy mode (Suc k) st1 evs1)"
  by (subst decimate_loop.simps) simp

lemma decimate_loop_stage:
  "(\<forall>rtc. ds_dstRenderTargetContext st = Some rtc \<longrightarrow> rtc_config rtc = config) \<Longrightarrow>
   stage_ok config mode fused evs (decimate_loop b ctx config cs contentRect sfx sfy mode k st evs) \<and>
   cleared_rects (snd (decimate_loop b ctx config cs contentRect sfx sfy mode k st evs)) = cleared_rects evs \<and>
   (\<forall>st1. fst (decimate_loop b ctx config cs contentRect sfx sfy mode k st evs) = Returned (Some st1) \<longrightarrow>
      (\<forall>rtc. ds_dstRenderTargetContext st1 = Some rtc \<longrightarrow> rtc_config rtc = config))"
proof (induction b ctx config cs contentRect sfx sfy mode k st evs rule: decimate_loop.induct)
  case (1 b ctx config cs contentRect sfx sfy mode k st evs)
  show ?case
  proof (cases "2 ^ k < sfx \<or> 2 ^ k < sfy")
    case False
    then show ?thesis using "1.prems" by (simp add: decimate_loop_stop)
  next
    case True
    obtain r evs1 where step: "decimate_step b ctx config cs contentRect sfx sfy mode (2 ^ k) st evs = (r, evs1)"
      by (cases "decimate_step b ctx config cs contentRect sfx sfy mode (2 ^ k) st evs")
    have ok: "stage_ok config mode fused evs (r, evs1)" and cl: "cleared_rects evs1 = cleared_rects evs"
      and rtc: "\<And>st1. r = Returned (Some st1) \<Longrightarrow>
                 \<exists>rtc. ds_dstRenderTargetContext st1 = Some rtc \<and> rtc_config rtc = config"
      using decimate_step_stage [of config mode fused evs b ctx cs contentRect sfx sfy "2 ^ k" st] step
      by auto
    show ?thesis
    proof (cases r)
      case Aborted
      then show ?thesis using True step ok cl by (simp add: decimate_loop_step)
    next
      case (Returned o1)
      show ?thesis
      proof (cases o1)
        case None
        then show ?thesis using True step ok cl Returned by (simp add: decimate_loop_step)
      next
        case (Some st1)
        have inv: "\<forall>rtc. ds_dstRenderTargetContext st1 = Some rtc \<longrightarrow> rtc_config rtc = config"
          using rtc [of st1] Returned Some by auto
        have e: "decimate_loop b ctx config cs contentRect sfx sfy mode k st evs =
                 decimate_loop b ctx config cs contentRect sfx sfy mode (Suc k) st1 evs1"
          using True step Returned Some by (simp add: decimate_loop_step)
        have ih: "stage_ok config mode fused evs1 (decimate_loop b ctx config cs contentRect sfx sfy mode (Suc k) st1 evs1) \<and>
           cleared_rects (snd (decimate_loop b ctx config cs contentRect sfx sfy mode (Suc k) st1 evs1)) = cleared_rects evs1 \<and>
           (\<forall>st2. fst (decimate_loop b ctx config cs contentRect sfx sfy mode (Suc k) st1 evs1) = Returned (Some st2) \<longrightarrow>
              (\<forall>rtc. ds_dstRenderTargetContext st2 = Some rtc \<longrightarrow> rtc_config rtc = config))"
          using "1.IH" [OF True step [symmetric] _ _ inv] Returned Some by simp
        have ok1: "stage_ok config mode fused evs (Returned (Some st1), evs1)"
          using ok Returned Some by simp
        have "stage_ok config mode fused evs (decimate_loop b ctx config cs contentRect sfx sfy mode (Suc k) st1 evs1)"
          using stage_ok_trans [OF ok1] ih by blast
        then show ?thesis using e ih cl by simp
      qed
    qed
  qed
qed

lemma stage_ok_cast:
  "stage_ok config mode fused evs (r, evs1) \<Longrightarrow> (r = Returned None \<longrightarrow> r1 = Returned None) \<Longrightarrow>
   stage_ok config mode fused evs (r1, evs1)"
  by (auto simp: stage_ok_def stage_log_def)

lemma decimate_stage:
  "blur_config b (ii_colorSpace dstII) (proxy_config src) = config \<Longrightarrow>
   stage_ok config mode fused evs
     (decimate b ctx src srcOffset contentRect sfx sfy willX willY rx ry mode dstII evs) \<and>
   (\<forall>proxy off cr. fst (decimate b ctx src srcOffset contentRect sfx sfy willX willY rx ry mode dstII evs)
        = Returned (Some (proxy, off, cr)) \<longrightarrow> proxy_config proxy = config)"
proof -
  assume cfg: "blur_config b (ii_colorSpace dstII) (proxy_config src) = config"
  let ?cs = "ii_colorSpace dstII"
  let ?srcRect = "scale_irect
       (scale_irect_roundout (if kIgnore_Mode = mode then SkImageInfo_bounds dstII
                             else SkIRect_offset contentRect srcOffset)
          (1.0 / real_of_int sfx) (1.0 / real_of_int sfy)) sfx sfy"
  let ?st0 = "\<lparr>ds_src = src, ds_srcOffset = srcOffset, ds_srcRect = ?srcRect,
               ds_dstRect = ?srcRect, ds_dstRenderTargetContext = None\<rparr>"
  let ?loop = "decimate_loop b ctx config ?cs contentRect sfx sfy mode 0 ?st0 evs"
  obtain r evs1 where loop: "?loop = (r, evs1)" by (cases ?loop)
  have l: "stage_ok config mode fused evs (r, evs1)"
    "\<And>st1 rtc. r = Returned (Some st1) \<Longrightarrow> ds_dstRenderTargetContext st1 = Some rtc \<Longrightarrow> rtc_config rtc = config"
    using decimate_loop_stage [of ?st0 config mode fused evs b ctx ?cs contentRect sfx sfy 0] loop
    by auto
  show ?thesis
  proof (cases r)
    case Aborted
    then show ?thesis
      using stage_ok_cast [OF l(1), of "Aborted"] loop cfg
      by (auto simp: decimate_def get_blur_config_def blur_config_def Let_def)
  next
    case (Returned o1)
    show ?thesis
    proof (cases o1)
      case None
      then show ?thesis
        using stage_ok_cast [OF l(1), of "Returned None"] loop cfg Returned
        by (auto simp: decimate_def get_blur_config_def blur_config_def Let_def)
    next
      case (Some st1)
      have ok1: "stage_ok config mode fused evs (Returned (Some st1), evs1)"
        using l(1) Returned Some by simp
      show ?thesis
      proof (cases "ds_dstRenderTargetContext st1")
        case n: None
        then show ?thesis
          using stage_ok_cast [OF ok1, of "Aborted"] loop cfg Returned Some
          by (auto simp: decimate_def get_blur_config_def blur_config_def Let_def)
      next
        case s: (Some rtc)
        have rc: "rtc_config rtc = config" using l(2) Returned Some s by simp
        show ?thesis
          using ok1 loop cfg Returned Some s rc
          by (auto simp: decimate_def get_blur_config_def blur_config_def Let_def
              renderer_defs stage_ok_def stage_log_def butlast_append no_failure_butlast
              split: if_splits)
      qed
    qed
  qed
qed

lemma GaussianBlur_x_pass_stage:
  "blur_config b (ii_colorSpace dstII) (proxy_config (bs_srcProxy st)) = config \<Longrightarrow>
   stage_ok config mode fused evs
     (GaussianBlur_x_pass b ctx rx sx ry sy mode dstII xFit st evs) \<and>
   (\<forall>st1. fst (GaussianBlur_x_pass b ctx rx sx ry sy mode dstII xFit st evs) = Returned (Some st1) \<longrightarrow>
      proxy_config (bs_srcProxy st1) = config \<and>
      (\<exists>rtc. bs_dstRenderTargetContext st1 = Some rtc \<and> rtc_config rtc = config))"
proof -
  assume cfg: "blur_config b (ii_colorSpace dstII) (proxy_config (bs_srcProxy st)) = config"
  let ?conv = "convolve_gaussian b ctx (bs_srcProxy st) (bs_srcRect st) (bs_srcOffset st) kX rx
             sx (bs_localSrcBounds st) mode dstII xFit evs"
  obtain r evs1 where conv: "?conv = (r, evs1)" by (cases ?conv)
  have c: "stage_ok config mode fused evs (r, evs1)"
    "\<And>rtc. r = Returned (Some rtc) \<Longrightarrow> rtc_config rtc = config"
    using convolve_gaussian_stage [OF cfg, of mode fused evs ctx "bs_srcRect st" "bs_srcOffset st" kX rx sx
        "bs_localSrcBounds st" xFit] conv by auto
  show ?thesis
  proof (cases r)
    case Aborted
    then show ?thesis
      using stage_ok_cast [OF c(1), of Aborted] conv by (simp add: GaussianBlur_x_pass_def)
  next
    case (Returned o1)
    show ?thesis
    proof (cases o1)
      case None
      then show ?thesis
        using stage_ok_cast [OF c(1), of "Returned None"] conv Returned
        by (simp add: GaussianBlur_x_pass_def)
    next
      case (Some rtc)
      have rc: "rtc_config rtc = config" using c(2) Returned Some by simp
      have ok1: "stage_ok config mode fused evs (Returned (Some rtc), evs1)"
        using c(1) Returned Some by simp
      show ?thesis
        using ok1 conv Returned Some rc
        by (auto simp: GaussianBlur_x_pass_def Let_def renderer_defs stage_ok_def stage_log_def
            butlast_append no_failure_butlast split: if_splits)
    qed
  qed
qed

lemma GaussianBlur_y_pass_stage:
  "blur_config b (ii_colorSpace dstII) (proxy_config (bs_srcProxy st)) = config \<Longrightarrow>
   stage_ok config mode fused evs
     (GaussianBlur_y_pass b ctx ry sy mode dstII yFit st evs) \<and>
   (\<forall>st1. fst (GaussianBlur_y_pass b ctx ry sy mode dstII yFit st evs) = Returned (Some st1) \<longrightarrow>
      proxy_config (bs_srcProxy st1) = config \<and>
      (\<exists>rtc. bs_dstRenderTargetContext st1 = Some rtc \<and> rtc_config rtc = config))"
proof -
  assume cfg: "blur_config b (ii_colorSpace dstII) (proxy_config (bs_srcProxy st)) = config"
  let ?conv = "convolve_gaussian b ctx (bs_srcProxy st) (bs_srcRect st) (bs_srcOffset st) kY ry
             sy (bs_localSrcBounds st) mode dstII yFit evs"
  obtain r evs1 where conv: "?conv = (r, evs1)" by (cases ?conv)
  have c: "stage_ok config mode fused evs (r, evs1)"
    "\<And>rtc. r = Returned (Some rtc) \<Longrightarrow> rtc_config rtc = config"
    using convolve_gaussian_stage [OF cfg, of mode fused evs ctx "bs_srcRect st" "bs_srcOffset st" kY ry sy
        "bs_localSrcBounds st" yFit] conv by auto
  show ?thesis
  proof (cases r)
    case Aborted
    then show ?thesis
      using stage_ok_cast [OF c(1), of Aborted] conv by (simp add: GaussianBlur_y_pass_def)
  next
    case (Returned o1)
    show ?thesis
    proof (cases o1)
      case None
      then show ?thesis
        using stage_ok_cast [OF c(1), of "Returned None"] conv Returned
        by (simp add: GaussianBlur_y_pass_def)
    next
      case (Some rtc)
      have rc: "rtc_config rtc = config" using c(2) Returned Some by simp
      have ok1: "stage_ok config mode fused evs (Returned (Some rtc), evs1)"
        using c(1) Returned Some by simp
      show ?thesis
        using ok1 conv Returned Some rc
        by (auto simp: GaussianBlur_y_pass_def Let_def renderer_defs stage_ok_def stage_log_def
            butlast_append no_failure_butlast split: if_splits)
    qed
  qed
qed


lemma stage_ok_bind:
  assumes "stage_ok config mode fused evs res"
    and "\<And>x evs1. res = (Returned (Some x), evs1) \<Longrightarrow> stage_ok config mode fused evs1 (k x evs1)"
  shows "stage_ok config mode fused evs
     (case res of
        (Aborted, evs1) \<Rightarrow> (Aborted, evs1)
      | (Returned None, evs1) \<Rightarrow> (Returned None, evs1)
      | (Returned (Some x), evs1) \<Rightarrow> k x evs1)"
proof -
  obtain r evs1 where res: "res = (r, evs1)" by (cases res)
  show ?thesis
  proof (cases r)
    case Aborted
    then show ?thesis using stage_ok_cast [of config mode fused evs r evs1 Aborted] assms(1) res by simp
  next
    case (Returned o1)
    show ?thesis
    proof (cases o1)
      case None
      then show ?thesis
        using stage_ok_cast [of config mode fused evs r evs1 "Returned None"] assms(1) res Returned
        by simp
    next
      case (Some x)
      have "stage_ok config mode fused evs (Returned (Some x), evs1)"
        using assms(1) res Returned Some by simp
      moreover have "stage_ok config mode fused evs1 (k x evs1)"
        using assms(2) [of x evs1] res Returned Some by simp
      ultimately have "stage_ok config mode fused evs (k x evs1)"
        by (rule stage_ok_trans)
      then show ?thesis using res Returned Some by simp
    qed
  qed
qed

lemma GaussianBlur_separable_stage:
  assumes cfg: "blur_config b (ii_colorSpace dstII) (proxy_config src) = config"
  shows "stage_ok config mode fused evs
     (GaussianBlur_separable b ctx src srcBounds srcOffset sx sy sfx sfy rx ry mode dstII fit evs)"
proof -
  let ?cs = "ii_colorSpace dstII"
  have idem: "blur_config b ?cs config = config"
    using cfg blur_config_idem [of b ?cs "proxy_config src"] by simp
  have tail: "stage_ok config mode fused evs3
       (case bs_dstRenderTargetContext st2 of
          None \<Rightarrow>
            if SK_DEBUG b then (Aborted, evs3)
            else if sfx > 1 \<or> sfy > 1 then (Aborted, evs3)
            else (Returned None, evs3)
        | Some dstRenderTargetContext \<Rightarrow>
            if SK_DEBUG b \<and> \<not> proxy_id (bs_srcProxy st2) = rtc_id dstRenderTargetContext
            then (Aborted, evs3)
            else if sfx > 1 \<or> sfy > 1 then
              reexpand b ctx dstRenderTargetContext (bs_localSrcBounds st2) sfx sfy mode dstII fit evs3
            else (Returned (Some dstRenderTargetContext), evs3))"
    if "\<forall>rtc. bs_dstRenderTargetContext st2 = Some rtc \<longrightarrow> rtc_config rtc = config"
    for st2 evs3
  proof (cases "bs_dstRenderTargetContext st2")
    case None
    then show ?thesis by simp
  next
    case (Some rtc)
    then have "blur_config b ?cs (rtc_config rtc) = config" using that idem by simp
    then show ?thesis using Some reexpand_stage [of b dstII rtc config mode fused evs3] by simp
  qed
  have ypart: "stage_ok config mode fused evs2
       (case (if sy > 0.0 then GaussianBlur_y_pass b ctx ry sy mode dstII yFit st1 evs2
              else (Returned (Some st1), evs2)) of
          (Aborted, evs3) \<Rightarrow> (Aborted, evs3)
        | (Returned None, evs3) \<Rightarrow> (Returned None, evs3)
        | (Returned (Some st2), evs3) \<Rightarrow>
            (case bs_dstRenderTargetContext st2 of
               None \<Rightarrow>
                 if SK_DEBUG b then (Aborted, evs3)
                 else if sfx > 1 \<or> sfy > 1 then (Aborted, evs3)
                 else (Returned None, evs3)
             | Some dstRenderTargetContext \<Rightarrow>
                 if SK_DEBUG b \<and> \<not> proxy_id (bs_srcProxy st2) = rtc_id dstRenderTargetContext
                 then (Aborted, evs3)
                 else if sfx > 1 \<or> sfy > 1 then
                   reexpand b ctx dstRenderTargetContext (bs_localSrcBounds st2) sfx sfy mode dstII fit evs3
                 else (Returned (Some dstRenderTargetContext), evs3)))"
    if inv1: "blur_config b ?cs (proxy_config (bs_srcProxy st1)) = config"
       "\<forall>rtc. bs_dstRenderTargetContext st1 = Some rtc \<longrightarrow> rtc_config rtc = config"
    for st1 evs2 yFit
  proof (rule stage_ok_bind)
    show "stage_ok config mode fused evs2
       (if sy > 0.0 then GaussianBlur_y_pass b ctx ry sy mode dstII yFit st1 evs2
        else (Returned (Some st1), evs2))"
      using GaussianBlur_y_pass_stage [OF inv1(1), of mode fused evs2 ctx ry sy yFit] by simp
  next
    fix st2 evs3
    assume r: "(if sy > 0.0 then GaussianBlur_y_pass b ctx ry sy mode dstII yFit st1 evs2
        else (Returned (Some st1), evs2)) = (Returned (Some st2), evs3)"
    have "\<forall>rtc. bs_dstRenderTargetContext st2 = Some rtc \<longrightarrow> rtc_config rtc = config"
    proof (cases "sy > 0.0")
      case True
      then show ?thesis
        using r GaussianBlur_y_pass_stage [OF inv1(1), of mode fused evs2 ctx ry sy yFit] by auto
    next
      case False
      then show ?thesis using r inv1(2) by auto
    qed
    then show "stage_ok config mode fused evs3
       (case bs_dstRenderTargetContext st2 of
          None \<Rightarrow>
            if SK_DEBUG b then (Aborted, evs3)
            else if sfx > 1 \<or> sfy > 1 then (Aborted, evs3)
            else (Returned None, evs3)
        | Some dstRenderTargetContext \<Rightarrow>
            if SK_DEBUG b \<and> \<not> proxy_id (bs_srcProxy st2) = rtc_id dstRenderTargetContext
            then (Aborted, evs3)
            else if sfx > 1 \<or> sfy > 1 then
              reexpand b ctx dstRenderTargetContext (bs_localSrcBounds st2) sfx sfy mode dstII fit evs3
            else (Returned (Some dstRenderTargetContext), evs3))"
      by (rule tail)
  qed
  show ?thesis
    unfolding GaussianBlur_separable_def Let_def
  proof (rule stage_ok_bind)
    show "stage_ok config mode fused evs
       (if sfx > 1 \<or> sfy > 1 then
          decimate b ctx src srcOffset srcBounds sfx sfy (sx > 0.0) (sy > 0.0) rx ry mode dstII evs
        else (Returned (Some (src, srcOffset, srcBounds)), evs))"
      using decimate_stage [OF cfg, of mode fused evs ctx srcOffset srcBounds sfx sfy "sx > 0.0" "sy > 0.0" rx ry]
      by simp
  next
    fix x evs1
    assume r: "(if sfx > 1 \<or> sfy > 1 then
          decimate b ctx src srcOffset srcBounds sfx sfy (sx > 0.0) (sy > 0.0) rx ry mode dstII evs
        else (Returned (Some (src, srcOffset, srcBounds)), evs)) = (Returned (Some x), evs1)"
    obtain p off lsb where x: "x = (p, off, lsb)" by (cases x)
    have pc: "blur_config b ?cs (proxy_config p) = config"
    proof (cases "sfx > 1 \<or> sfy > 1")
      case True
      then have "proxy_config p = config"
        using r x decimate_stage [OF cfg, of mode fused evs ctx srcOffset srcBounds sfx sfy "sx > 0.0" "sy > 0.0" rx ry]
        by auto
      then show ?thesis using idem by simp
    next
      case False
      then show ?thesis using r x cfg by auto
    qed
    let ?st0 = "\<lparr>bs_srcProxy = p, bs_srcOffset = off, bs_localSrcBounds = lsb,
                 bs_srcRect = scale_irect_roundout (SkImageInfo_bounds dstII)
                     (1.0 / real_of_int sfx) (1.0 / real_of_int sfy),
                 bs_dstRenderTargetContext = None\<rparr>"
    let ?xFit = "if sfx > 1 \<or> sfy > 1 then kApprox else if sy > 0.0 then kApprox else fit"
    let ?yFit = "if sfx > 1 \<or> sfy > 1 then kApprox else fit"
    have inv0: "blur_config b ?cs (proxy_config (bs_srcProxy ?st0)) = config"
      using pc by simp
    have xpart: "stage_ok config mode fused evs1
       (case (if sx > 0.0 then GaussianBlur_x_pass b ctx rx sx ry sy mode dstII ?xFit ?st0 evs1
              else (Returned (Some ?st0), evs1)) of
          (Aborted, evs2) \<Rightarrow> (Aborted, evs2)
        | (Returned None, evs2) \<Rightarrow> (Returned None, evs2)
        | (Returned (Some st1), evs2) \<Rightarrow>
           (case (if sy > 0.0 then GaussianBlur_y_pass b ctx ry sy mode dstII ?yFit st1 evs2
                  else (Returned (Some st1), evs2)) of
              (Aborted, evs3) \<Rightarrow> (Aborted, evs3)
            | (Returned None, evs3) \<Rightarrow> (Returned None, evs3)
            | (Returned (Some st2), evs3) \<Rightarrow>
                (case bs_dstRenderTargetContext st2 of
                   None \<Rightarrow>
                     if SK_DEBUG b then (Aborted, evs3)
                     else if sfx > 1 \<or> sfy > 1 then (Aborted, evs3)
                     else (Returned None, evs3)
                 | Some dstRenderTargetContext \<Rightarrow>
                     if SK_DEBUG b \<and> \<not> proxy_id (bs_srcProxy st2) = rtc_id dstRenderTargetContext
                     then (Aborted, evs3)
                     else if sfx > 1 \<or> sfy > 1 then
                       reexpand b ctx dstRenderTargetContext (bs_localSrcBounds st2) sfx sfy mode dstII fit evs3
                     else (Returned (Some dstRenderTargetContext), evs3))))"
    proof (rule stage_ok_bind)
      show "stage_ok config mode fused evs1
         (if sx > 0.0 then GaussianBlur_x_pass b ctx rx sx ry sy mode dstII ?xFit ?st0 evs1
          else (Returned (Some ?st0), evs1))"
        using GaussianBlur_x_pass_stage [OF inv0, of mode fused evs1 ctx rx sx ry sy ?xFit] by simp
    next
      fix st1 evs2
      assume r1: "(if sx > 0.0 then GaussianBlur_x_pass b ctx rx sx ry sy mode dstII ?xFit ?st0 evs1
          else (Returned (Some ?st0), evs1)) = (Returned (Some st1), evs2)"
      have inv1: "blur_config b ?cs (proxy_config (bs_srcProxy st1)) = config \<and>
         (\<forall>rtc. bs_dstRenderTargetContext st1 = Some rtc \<longrightarrow> rtc_config rtc = config)"
      proof (cases "sx > 0.0")
        case True
        then have "proxy_config (bs_srcProxy st1) = config \<and>
           (\<exists>rtc. bs_dstRenderTargetContext st1 = Some rtc \<and> rtc_config rtc = config)"
          using r1 GaussianBlur_x_pass_stage [OF inv0, of mode fused evs1 ctx rx sx ry sy ?xFit] by auto
        then show ?thesis using idem by auto
      next
        case False
        then show ?thesis using r1 pc by auto
      qed
      show "stage_ok config mode fused evs2
         (case (if sy > 0.0 then GaussianBlur_y_pass b ctx ry sy mode dstII ?yFit st1 evs2
                else (Returned (Some st1), evs2)) of
            (Aborted, evs3) \<Rightarrow> (Aborted, evs3)
          | (Returned None, evs3) \<Rightarrow> (Returned None, evs3)
          | (Returned (Some st2), evs3) \<Rightarrow>
              (case bs_dstRenderTargetContext st2 of
                 None \<Rightarrow>
                   if SK_DEBUG b then (Aborted, evs3)
                   else if sfx > 1 \<or> sfy > 1 then (Aborted, evs3)
                   else (Returned None, evs3)
               | Some dstRenderTargetContext \<Rightarrow>
                   if SK_DEBUG b \<and> \<not> proxy_id (bs_srcProxy st2) = rtc_id dstRenderTargetContext
                   then (Aborted, evs3)
                   else if sfx > 1 \<or> sfy > 1 then
                     reexpand b ctx dstRenderTargetContext (bs_localSrcBounds st2) sfx sfy mode dstII fit evs3
                   else (Returned (Some dstRenderTargetContext), evs3)))"
        using ypart [of st1 evs2 ?yFit] inv1 by blast
    qed
    show "stage_ok config mode fused evs1
       (case x of
          (srcProxy1, srcOffset1, localSrcBounds) \<Rightarrow>
            if sfx = 0 \<or> sfy = 0 then (Aborted, evs1)
            else case (if sx > 0.0 then
                         GaussianBlur_x_pass b ctx rx sx ry sy mode dstII ?xFit
                           \<lparr>bs_srcProxy = srcProxy1, bs_srcOffset = srcOffset1,
                            bs_localSrcBounds = localSrcBounds,
                            bs_srcRect = scale_irect_roundout (SkImageInfo_bounds dstII)
                                (1.0 / real_of_int sfx) (1.0 / real_of_int sfy),
                            bs_dstRenderTargetContext = None\<rparr> evs1
                       else (Returned (Some \<lparr>bs_srcProxy = srcProxy1, bs_srcOffset = srcOffset1,
                            bs_localSrcBounds = localSrcBounds,
                            bs_srcRect = scale_irect_roundout (SkImageInfo_bounds dstII)
                                (1.0 / real_of_int sfx) (1.0 / real_of_int sfy),
                            bs_dstRenderTargetContext = None\<rparr>), evs1)) of
                   (Aborted, evs2) \<Rightarrow> (Aborted, evs2)
                 | (Returned None, evs2) \<Rightarrow> (Returned None, evs2)
                 | (Returned (Some st1), evs2) \<Rightarrow>
                    (case (if sy > 0.0 then GaussianBlur_y_pass b ctx ry sy mode dstII ?yFit st1 evs2
                           else (Returned (Some st1), evs2)) of
                       (Aborted, evs3) \<Rightarrow> (Aborted, evs3)
                     | (Returned None, evs3) \<Rightarrow> (Returned None, evs3)
                     | (Returned (Some st2), evs3) \<Rightarrow>
                         (case bs_dstRenderTargetContext st2 of
                            None \<Rightarrow>
                              if SK_DEBUG b then (Aborted, evs3)
                              else if sfx > 1 \<or> sfy > 1 then (Aborted, evs3)
                              else (Returned None, evs3)
                          | Some dstRenderTargetContext \<Rightarrow>
                              if SK_DEBUG b \<and> \<not> proxy_id (bs_srcProxy st2) = rtc_id dstRenderTargetContext
                              then (Aborted, evs3)
                              else if sfx > 1 \<or> sfy > 1 then
                                reexpand b ctx dstRenderTargetContext (bs_localSrcBounds st2) sfx sfy mode dstII fit evs3
                              else (Returned (Some dstRenderTargetContext), evs3))))"
      using xpart x by simp
  qed
qed

lemma get_blur_config_Returned:
  "get_blur_config b proxy cs = Returned config \<Longrightarrow> config = blur_config b cs (proxy_config proxy)"
  by (auto simp: get_blur_config_def blur_config_def Let_def split: if_splits)

lemma GaussianBlur_stage:
  "stage_ok (blur_config b cs (proxy_config src)) mode True evs
     (GaussianBlur b ctx src cs dstBounds srcBounds sigmaX sigmaY mode alphaType fit evs)"
proof (cases "get_blur_config b src cs")
  case Aborted
  then show ?thesis by (simp add: GaussianBlur_def)
next
  case (Returned config)
  then have c: "config = blur_config b cs (proxy_config src)" by (rule get_blur_config_Returned)
  show ?thesis
  proof (cases "GrPixelConfigToColorType b config")
    case None
    then show ?thesis using Returned by (simp add: GaussianBlur_def)
  next
    case (Some ct)
    let ?ii = "SkImageInfo_Make (SkIRect_width dstBounds) (SkIRect_height dstBounds) ct alphaType cs"
    have cs: "ii_colorSpace ?ii = cs" by (simp add: SkImageInfo_Make_def)
    have cfg: "blur_config b (ii_colorSpace ?ii) (proxy_config src) = blur_config b cs (proxy_config src)"
      using cs by simp
    show ?thesis
      using Returned Some c [symmetric]
        convolve_gaussian_2d_stage [OF cfg, of mode evs ctx srcBounds]
        GaussianBlur_separable_stage [OF cfg, of mode True evs ctx srcBounds]
      by (auto simp: GaussianBlur_def Let_def split: outcome.splits prod.splits)
  qed
qed

lemma no_failure_butlast_nth:
  "no_failure (butlast evs) \<Longrightarrow> i < length evs \<Longrightarrow> failed (evs ! i) \<Longrightarrow> Suc i = length evs"
proof (rule ccontr)
  assume n: "no_failure (butlast evs)" and i: "i < length evs" and f: "failed (evs ! i)"
    and "Suc i \<noteq> length evs"
  then have "i < length (butlast evs)" by simp
  then have "\<not> failed (butlast evs ! i)"
    using n by (simp add: no_failure_def list_all_length)
  then show False using f \<open>i < length (butlast evs)\<close> by (simp add: nth_butlast)
qed

subsection \<open>The planner never scales a small blur\<close>

lemma adjust_sigma_loop_gt_2:
  "2 < sigma \<Longrightarrow> 2 < fst (adjust_sigma_loop sigma m s)"
proof (induction sigma m s rule: adjust_sigma_loop.induct)
  case (1 sigma m s)
  show ?case
  proof (cases "sigma > MAX_BLUR_SIGMA")
    case False
    then show ?thesis using "1.prems" by (simp add: adjust_sigma_loop_stop)
  next
    case True
    show ?thesis
    proof (cases "s * 2 > m")
      case c: True
      then show ?thesis using True by (simp add: adjust_sigma_loop_clamp MAX_BLUR_SIGMA_def)
    next
      case c: False
      have "2 < sigma * 0.5" using True by (simp add: MAX_BLUR_SIGMA_def)
      then have "2 < fst (adjust_sigma_loop (sigma * 0.5) m (s * 2))"
        using "1.IH"(2) [OF True c] by simp
      then show ?thesis using True c by (simp add: adjust_sigma_loop_step)
    qed
  qed
qed

lemma adjust_sigma_scaled_radius:
  assumes "adjust_sigma b sigma m = Returned (sigma1, scaleFactor, radius)"
  shows "scaleFactor \<noteq> 1 \<Longrightarrow> 2 < sigma1 \<and> 7 \<le> radius"
    and "0 < sigma1 \<Longrightarrow> 1 \<le> radius"
proof -
  have l: "adjust_sigma_loop sigma m 1 = (sigma1, scaleFactor)" and r: "radius = \<lceil>sigma1 * 3\<rceil>"
    using assms by (auto simp: adjust_sigma_def Let_def split: prod.splits if_splits)
  show "0 < sigma1 \<Longrightarrow> 1 \<le> radius"
    using r by (simp add: le_ceiling_iff)
  show "2 < sigma1 \<and> 7 \<le> radius" if "scaleFactor \<noteq> 1"
  proof -
    have "sigma > MAX_BLUR_SIGMA"
    proof (rule ccontr)
      assume "\<not> sigma > MAX_BLUR_SIGMA"
      then have "adjust_sigma_loop sigma m 1 = (sigma, 1)" by (rule adjust_sigma_loop_stop)
      then show False using l that by simp
    qed
    then have "2 < sigma" by (simp add: MAX_BLUR_SIGMA_def)
    then have g: "2 < sigma1" using adjust_sigma_loop_gt_2 [of sigma m 1] l by simp
    then have "6 < sigma1 * 3" by simp
    then have "6 < \<lceil>sigma1 * 3\<rceil>" by (simp add: less_ceiling_iff)
    then show ?thesis using g r by simp
  qed
qed

lemma scaled_blur_taps:
  "7 \<le> rx \<Longrightarrow> 1 \<le> ry \<Longrightarrow> (45::int) \<le> (2 * rx + 1) * (2 * ry + 1)"
proof -
  assume "7 \<le> rx" and "1 \<le> ry"
  then have "15 * 3 \<le> (2 * rx + 1) * (2 * ry + 1)"
    by (intro mult_mono) auto
  then show ?thesis by simp
qed

lemma GaussianBlur_separable_draws_no_2d:
  "draws_2d_convolution
     (snd (GaussianBlur_separable b ctx src srcBounds srcOffset sx sy fx fy rx ry mode dstII fit evs))
   = draws_2d_convolution evs"
  using GaussianBlur_separable_stage [of b dstII src "blur_config b (ii_colorSpace dstII) (proxy_config src)"
      mode False evs ctx srcBounds srcOffset sx sy fx fy rx ry fit]
  by (auto simp: stage_ok_def stage_log_def)

lemma convolve_gaussian_2d_draws_2d:
  "get_blur_config b proxy (ii_colorSpace dstII) = Returned config \<Longrightarrow>
   request_succeeds ctx (length evs) \<Longrightarrow>
   draws_2d_convolution
     (snd (convolve_gaussian_2d b ctx proxy srcBounds srcOffset rx ry sx sy mode dstII fit evs))"
  by (simp add: convolve_gaussian_2d_def renderer_defs Let_def)

subsection \<open>Evaluating the model on concrete blurs\<close>

lemmas geometry_defs =
  SkIPoint_Make_def SkIPoint_negate_def SkIRect_MakeLTRB_def SkIRect_MakeXYWH_def
  SkIRect_MakeWH_def SkIRect_width_def SkIRect_height_def SkIRect_isEmpty_def SkIRect_offset_def
  SkIRect_inset_def SkIRect_offsetTo_def SkRect_Make_def SkMatrix_I_def SK_ScalarHalf_def
  SkImageInfo_Make_def SkImageInfo_bounds_def scale_irect_roundout_def scale_irect_def
  is_even_def SkIsPow2_def shrink_irect_by_2_def isGammaCorrect_def

lemmas blur_defs =
  GaussianBlur_def GaussianBlur_separable_def GaussianBlur_x_pass_def GaussianBlur_y_pass_def
  decimate_def decimate_loop.simps decimate_step_def reexpand_def convolve_gaussian_def
  convolve_gaussian_rects_def convolve_gaussian_2d_def get_blur_config_def adjust_sigma_def
  adjust_sigma_loop.simps MAX_BLUR_SIGMA_def

lemmas sample_defs =
  skia_build_def granting_context_def refusing_context_def source_texture_def

section \<open>The claims about the pipeline\<close>

text \<open>
  C2, as the claim states it, fails at the threshold itself. With sigma 0.5 on both
  axes the planner gives the radius 2 on both, so the kernel has 5 \<times> 5 = 25 taps,
  which is \<open>MAX_KERNEL_SIZE\<close> and so not below it; the blur takes the fused 2-D path all
  the same, because the test in \<^verbatim>\<open>GaussianBlur\<close> is \<^verbatim>\<open><=\<close>.
\<close>

theorem GaussianBlur_fused_at_threshold:
  "adjust_sigma (skia_build False) 0.5 1024 = Returned (0.5, 1, 2) \<and>
   \<not> (2 * 2 + 1) * (2 * 2 + 1) < MAX_KERNEL_SIZE (skia_build False) \<and>
   draws_2d_convolution
     (snd (GaussianBlur (skia_build False) (granting_context 1024)
             (source_texture kRGBA_8888_GrPixelConfig) None (SkIRect_MakeWH 200 200)
             (SkIRect_MakeLTRB 50 50 150 150) 0.5 0.5 kClamp_Mode kPremul_SkAlphaType kExact []))"
  by (simp add: blur_defs renderer_defs geometry_defs sample_defs Let_def)

text \<open>
  C2, amended. Let the planner return \<open>(sx, fx, rx)\<close> and \<open>(sy, fy, ry)\<close> for the two
  axes, let the pixel config have a colour type, and let the renderer grant the first
  request. Then the blur draws the fused 2-D convolution if and only if both planned
  sigmas are positive and the tap count \<open>(2 rx + 1) (2 ry + 1)\<close> is at most
  \<open>MAX_KERNEL_SIZE\<close>; in every other case \<^verbatim>\<open>GaussianBlur\<close> is the general separable
  path (optional decimation, the 1-D passes, optional re-expansion), which never draws
  a 2-D convolution. In a debug build the fused path asserts that neither axis is
  scaled; that assertion holds whenever \<open>MAX_KERNEL_SIZE\<close> is below 45, the tap count of
  the smallest scaled blur.
\<close>

theorem GaussianBlur_fused_iff:
  assumes cfg: "get_blur_config b src cs = Returned config"
    and ct: "GrPixelConfigToColorType b config = Some ct"
    and px: "adjust_sigma b sigmaX (caps_maxTextureSize ctx) = Returned (sx, fx, rx)"
    and py: "adjust_sigma b sigmaY (caps_maxTextureSize ctx) = Returned (sy, fy, ry)"
    and granted: "request_succeeds ctx 0"
    and threshold: "SK_DEBUG b \<longrightarrow> MAX_KERNEL_SIZE b < 45"
  shows
    "(draws_2d_convolution
        (snd (GaussianBlur b ctx src cs dstBounds srcBounds sigmaX sigmaY mode alphaType fit []))
      \<longleftrightarrow> 0 < sx \<and> 0 < sy \<and> (2 * rx + 1) * (2 * ry + 1) \<le> MAX_KERNEL_SIZE b) \<and>
     (\<not> (0 < sx \<and> 0 < sy \<and> (2 * rx + 1) * (2 * ry + 1) \<le> MAX_KERNEL_SIZE b) \<longrightarrow>
        GaussianBlur b ctx src cs dstBounds srcBounds sigmaX sigmaY mode alphaType fit [] =
        GaussianBlur_separable b ctx src srcBounds
          (SkIPoint_Make (- fLeft dstBounds) (- fTop dstBounds)) sx sy fx fy rx ry mode
          (SkImageInfo_Make (SkIRect_width dstBounds) (SkIRect_height dstBounds) ct alphaType cs)
          fit [])"
proof (cases "0 < sx \<and> 0 < sy \<and> (2 * rx + 1) * (2 * ry + 1) \<le> MAX_KERNEL_SIZE b")
  case True
  let ?ii = "SkImageInfo_Make (SkIRect_width dstBounds) (SkIRect_height dstBounds) ct alphaType cs"
  have one: "SK_DEBUG b \<Longrightarrow> fx = 1 \<and> fy = 1"
  proof (rule ccontr)
    assume d: "SK_DEBUG b" and n: "\<not> (fx = 1 \<and> fy = 1)"
    have rx1: "1 \<le> rx" and ry1: "1 \<le> ry"
      using adjust_sigma_scaled_radius(2) [OF px] adjust_sigma_scaled_radius(2) [OF py] True
      by simp_all
    have "45 \<le> (2 * rx + 1) * (2 * ry + 1)"
    proof (cases "fx = 1")
      case False
      then have "7 \<le> rx" using adjust_sigma_scaled_radius(1) [OF px] by simp
      then show ?thesis using ry1 by (rule scaled_blur_taps)
    next
      case fx: True
      then have "fy \<noteq> 1" using n by simp
      then have "7 \<le> ry" using adjust_sigma_scaled_radius(1) [OF py] by simp
      then have "45 \<le> (2 * ry + 1) * (2 * rx + 1)" using rx1 by (rule scaled_blur_taps)
      then show ?thesis by (simp add: mult.commute)
    qed
    then show False using True threshold d by simp
  qed
  have cfg2: "get_blur_config b src (ii_colorSpace ?ii) = Returned config"
    using cfg by (simp add: SkImageInfo_Make_def)
  have g: "GaussianBlur b ctx src cs dstBounds srcBounds sigmaX sigmaY mode alphaType fit [] =
           convolve_gaussian_2d b ctx src srcBounds
             (SkIPoint_Make (- fLeft dstBounds) (- fTop dstBounds)) rx ry sx sy mode ?ii fit []"
    using cfg ct px py True one by (auto simp: GaussianBlur_def Let_def)
  show ?thesis
    using True g convolve_gaussian_2d_draws_2d [OF cfg2, of ctx "[]"] granted by simp
next
  case False
  have both_zero: "SK_DEBUG b \<Longrightarrow> sx = 0 \<Longrightarrow> sy = 0 \<Longrightarrow>
      GaussianBlur_separable b ctx src srcBounds
          (SkIPoint_Make (- fLeft dstBounds) (- fTop dstBounds)) sx sy fx fy rx ry mode
          (SkImageInfo_Make (SkIRect_width dstBounds) (SkIRect_height dstBounds) ct alphaType cs)
          fit [] = (Aborted, [])"
  proof -
    assume d: "SK_DEBUG b" and z: "sx = 0" "sy = 0"
    have "fx = 1" using adjust_sigma_scaled_radius(1) [OF px] z by auto
    moreover have "fy = 1" using adjust_sigma_scaled_radius(1) [OF py] z by auto
    ultimately show ?thesis using d z by (simp add: GaussianBlur_separable_def Let_def)
  qed
  have g: "GaussianBlur b ctx src cs dstBounds srcBounds sigmaX sigmaY mode alphaType fit [] =
        GaussianBlur_separable b ctx src srcBounds
          (SkIPoint_Make (- fLeft dstBounds) (- fTop dstBounds)) sx sy fx fy rx ry mode
          (SkImageInfo_Make (SkIRect_width dstBounds) (SkIRect_height dstBounds) ct alphaType cs)
          fit []"
    using cfg ct px py False both_zero by (auto simp: GaussianBlur_def Let_def)
  show ?thesis
    using False g GaussianBlur_separable_draws_no_2d [of b ctx src srcBounds
        "SkIPoint_Make (- fLeft dstBounds) (- fTop dstBounds)" sx sy fx fy rx ry mode
        "SkImageInfo_Make (SkIRect_width dstBounds) (SkIRect_height dstBounds) ct alphaType cs" fit "[]"]
    by simp
qed

theorem GaussianBlur_fused_iff_witness:
  "get_blur_config (skia_build True) (source_texture kRGBA_8888_GrPixelConfig) None =
     Returned kRGBA_8888_GrPixelConfig \<and>
   GrPixelConfigToColorType (skia_build True) kRGBA_8888_GrPixelConfig = Some kRGBA_8888_SkColorType \<and>
   adjust_sigma (skia_build True) 0.5 (caps_maxTextureSize (granting_context 1024)) = Returned (0.5, 1, 2) \<and>
   adjust_sigma (skia_build True) 1 (caps_maxTextureSize (granting_context 1024)) = Returned (1, 1, 3) \<and>
   request_succeeds (granting_context 1024) 0 \<and>
   SK_DEBUG (skia_build True) \<and> MAX_KERNEL_SIZE (skia_build True) < 45 \<and>
   draws_2d_convolution
     (snd (GaussianBlur (skia_build True) (granting_context 1024)
             (source_texture kRGBA_8888_GrPixelConfig) None (SkIRect_MakeWH 200 200)
             (SkIRect_MakeLTRB 50 50 150 150) 0.5 0.5 kClamp_Mode kPremul_SkAlphaType kExact [])) \<and>
   \<not> (2 * 2 + 1) * (2 * 3 + 1) \<le> MAX_KERNEL_SIZE (skia_build True) \<and>
   \<not> draws_2d_convolution
     (snd (GaussianBlur (skia_build True) (granting_context 1024)
             (source_texture kRGBA_8888_GrPixelConfig) None (SkIRect_MakeWH 200 200)
             (SkIRect_MakeLTRB 50 50 150 150) 0.5 1 kClamp_Mode kPremul_SkAlphaType kExact []))"
proof -
  let ?b = "skia_build True" and ?ctx = "granting_context 1024"
  let ?src = "source_texture kRGBA_8888_GrPixelConfig"
  have cfg: "get_blur_config ?b ?src None = Returned kRGBA_8888_GrPixelConfig"
    and ct: "GrPixelConfigToColorType ?b kRGBA_8888_GrPixelConfig = Some kRGBA_8888_SkColorType"
    and p1: "adjust_sigma ?b 0.5 (caps_maxTextureSize ?ctx) = Returned (0.5, 1, 2)"
    and p2: "adjust_sigma ?b 1 (caps_maxTextureSize ?ctx) = Returned (1, 1, 3)"
    and granted: "request_succeeds ?ctx 0"
    and threshold: "SK_DEBUG ?b \<longrightarrow> MAX_KERNEL_SIZE ?b < 45"
    by (simp_all add: blur_defs sample_defs Let_def)
  have k: "SK_DEBUG ?b" "MAX_KERNEL_SIZE ?b = 25"
    by (simp_all add: skia_build_def)
  show ?thesis
    using GaussianBlur_fused_iff [OF cfg ct p1 p1 granted threshold, of "SkIRect_MakeWH 200 200"
        "SkIRect_MakeLTRB 50 50 150 150" kClamp_Mode kPremul_SkAlphaType kExact, THEN conjunct1]
      GaussianBlur_fused_iff [OF cfg ct p1 p2 granted threshold, of "SkIRect_MakeWH 200 200"
        "SkIRect_MakeLTRB 50 50 150 150" kClamp_Mode kPremul_SkAlphaType kExact, THEN conjunct1]
      cfg ct p1 p2 granted k
    by simp
qed

text \<open>
  C3. In the log of a blur, a request that the renderer refused (an allocation of a
  render target or a texture reference that came back null, in any stage) is the last
  event, and the blur returns null: nothing is requested, cleared or drawn after the
  refusal, and no surface is returned.
\<close>

theorem GaussianBlur_failure_is_final:
  "GaussianBlur b ctx src cs dstBounds srcBounds sigmaX sigmaY mode alphaType fit [] = (r, evs) \<Longrightarrow>
   i < length evs \<Longrightarrow> failed (evs ! i) \<Longrightarrow> r = Returned None \<and> Suc i = length evs"
proof -
  assume g: "GaussianBlur b ctx src cs dstBounds srcBounds sigmaX sigmaY mode alphaType fit [] = (r, evs)"
    and i: "i < length evs" and f: "failed (evs ! i)"
  have s: "stage_log (blur_config b cs (proxy_config src)) mode True r evs"
    using GaussianBlur_stage [of b cs src mode "[]" ctx dstBounds srcBounds sigmaX sigmaY alphaType fit] g
    by (simp add: stage_ok_def)
  have "\<not> no_failure evs"
    using i f by (auto simp: no_failure_def list_all_length)
  then have "r = Returned None" using s by (simp add: stage_log_def)
  moreover have "Suc i = length evs"
    using s i f by (auto simp: stage_log_def intro: no_failure_butlast_nth)
  ultimately show ?thesis by simp
qed

theorem GaussianBlur_failure_is_final_witness:
  "5 < length (snd (GaussianBlur (skia_build True) (refusing_context 1024 5)
          (source_texture kSRGBA_8888_GrPixelConfig) None (SkIRect_MakeWH 200 200)
          (SkIRect_MakeLTRB 50 50 150 150) 8 8 kRepeat_Mode kPremul_SkAlphaType kExact [])) \<and>
   failed (snd (GaussianBlur (skia_build True) (refusing_context 1024 5)
          (source_texture kSRGBA_8888_GrPixelConfig) None (SkIRect_MakeWH 200 200)
          (SkIRect_MakeLTRB 50 50 150 150) 8 8 kRepeat_Mode kPremul_SkAlphaType kExact []) ! 5) \<and>
   fst (GaussianBlur (skia_build True) (refusing_context 1024 5)
          (source_texture kSRGBA_8888_GrPixelConfig) None (SkIRect_MakeWH 200 200)
          (SkIRect_MakeLTRB 50 50 150 150) 8 8 kRepeat_Mode kPremul_SkAlphaType kExact []) =
     Returned None \<and>
   length (snd (GaussianBlur (skia_build True) (refusing_context 1024 5)
          (source_texture kSRGBA_8888_GrPixelConfig) None (SkIRect_MakeWH 200 200)
          (SkIRect_MakeLTRB 50 50 150 150) 8 8 kRepeat_Mode kPremul_SkAlphaType kExact [])) = 6"
proof -
  let ?G = "GaussianBlur (skia_build True) (refusing_context 1024 5)
          (source_texture kSRGBA_8888_GrPixelConfig) None (SkIRect_MakeWH 200 200)
          (SkIRect_MakeLTRB 50 50 150 150) 8 8 kRepeat_Mode kPremul_SkAlphaType kExact []"
  have l: "5 < length (snd ?G)" and f: "failed (snd ?G ! 5)"
    by (simp_all add: blur_defs renderer_defs geometry_defs sample_defs Let_def)
  have e: "?G = (fst ?G, snd ?G)" by simp
  show ?thesis
    using GaussianBlur_failure_is_final [OF e l f] l f by simp
qed

text \<open>
  C7, as the claim states it, fails. With scale factors 1 along X and 2 along Y and an
  X pass to come (sigmaX = 2, sigmaY = 8), the X pass runs along an axis of scale
  factor 1 while the opposite axis was decimated, and \<^verbatim>\<open>decimate\<close> clears nothing.
\<close>

theorem decimate_no_halo_for_undecimated_axis:
  "decimate (skia_build False) (granting_context 1024) (source_texture kRGBA_8888_GrPixelConfig)
     (SkIPoint_Make 0 0) (SkIRect_MakeWH 200 200) 1 2 True True 6 12 kClamp_Mode
     (SkImageInfo_Make 200 200 kRGBA_8888_SkColorType kPremul_SkAlphaType None) [] =
   (Returned (Some (\<lparr>proxy_id = 1, proxy_config = kRGBA_8888_GrPixelConfig\<rparr>,
                    SkIPoint_Make 0 0, SkIRect_MakeWH 200 100)),
    [MakeDeferredRenderTargetContext kApprox 200 100 kRGBA_8888_GrPixelConfig None True,
     FillRectToRect 1 (SkIRect_MakeWH 200 100)
       \<lparr>gammaCorrect = False,
        colorFragmentProcessor =
          GrTextureDomainEffect_Make (source_texture kRGBA_8888_GrPixelConfig) SkMatrix_I
            (SkRect_MakeLTRB 0 (1 / 2) 200 (399 / 2)) kClamp_Mode kBilerp,
        xpFactory = kSrc\<rparr>
       (SkRect_MakeLTRB 0 0 200 100) (SkRect_MakeLTRB 0 0 200 200),
     AsTextureProxyRef 1 True,
     AsTextureProxyRef 1 True]) \<and>
   cleared_rects
     (snd (decimate (skia_build False) (granting_context 1024)
             (source_texture kRGBA_8888_GrPixelConfig) (SkIPoint_Make 0 0) (SkIRect_MakeWH 200 200)
             1 2 True True 6 12 kClamp_Mode
             (SkImageInfo_Make 200 200 kRGBA_8888_SkColorType kPremul_SkAlphaType None) [])) = []"
  by (simp add: blur_defs renderer_defs geometry_defs sample_defs Let_def)

text \<open>
  C7, amended. When \<^verbatim>\<open>decimate\<close> returns a texture, the only clear after the halving
  steps is this one, issued right before the texture is returned: if an X pass will
  follow and the X axis was decimated (scaleFactorX > 1), a strip \<open>radiusX\<close> wide to the
  right of the content rectangle; if no X pass will follow and the Y axis was
  decimated (scaleFactorY > 1), a strip \<open>radiusY\<close> high below the content rectangle;
  nothing otherwise, in particular nothing for a pass along an axis of scale factor 1.
\<close>

theorem decimate_halo_clear:
  "decimate b ctx src srcOffset contentRect sfx sfy willX willY rx ry mode dstII evs
     = (Returned (Some (proxy, off, contentRect1)), evs1) \<Longrightarrow>
   \<exists>pre. evs1 =
      pre @
      (if willX then
         (if sfx > 1 then
            [AbsClear (proxy_id proxy)
               (SkIRect_MakeXYWH (fRight contentRect1) (fTop contentRect1) rx
                  (SkIRect_height contentRect1))]
          else [])
       else
         (if sfy > 1 then
            [AbsClear (proxy_id proxy)
               (SkIRect_MakeXYWH (fLeft contentRect1) (fBottom contentRect1)
                  (SkIRect_width contentRect1) ry)]
          else [])) @
      [AsTextureProxyRef (proxy_id proxy) True] \<and>
      cleared_rects pre = cleared_rects evs"
proof -
  assume d: "decimate b ctx src srcOffset contentRect sfx sfy willX willY rx ry mode dstII evs
     = (Returned (Some (proxy, off, contentRect1)), evs1)"
  let ?cs = "ii_colorSpace dstII"
  let ?srcRect = "scale_irect
       (scale_irect_roundout (if kIgnore_Mode = mode then SkImageInfo_bounds dstII
                             else SkIRect_offset contentRect srcOffset)
          (1.0 / real_of_int sfx) (1.0 / real_of_int sfy)) sfx sfy"
  let ?st0 = "\<lparr>ds_src = src, ds_srcOffset = srcOffset, ds_srcRect = ?srcRect,
               ds_dstRect = ?srcRect, ds_dstRenderTargetContext = None\<rparr>"
  obtain config where cfg: "get_blur_config b src ?cs = Returned config"
    using d by (cases "get_blur_config b src ?cs") (auto simp: decimate_def split: if_splits)
  let ?loop = "decimate_loop b ctx config ?cs contentRect sfx sfy mode 0 ?st0 evs"
  obtain r pre where loop: "?loop = (r, pre)" by (cases ?loop)
  have cl: "cleared_rects pre = cleared_rects evs"
    using decimate_loop_stage [of ?st0 config mode False evs b ctx ?cs contentRect sfx sfy 0] loop
    by auto
  show ?thesis
    using d cfg loop cl
    by (auto simp: decimate_def Let_def renderer_defs
        split: if_splits outcome.splits option.splits)
qed

theorem decimate_halo_clear_witness:
  "decimate (skia_build False) (granting_context 1024) (source_texture kRGBA_8888_GrPixelConfig)
     (SkIPoint_Make 0 0) (SkIRect_MakeWH 200 200) 2 2 True True 12 12 kClamp_Mode
     (SkImageInfo_Make 200 200 kRGBA_8888_SkColorType kPremul_SkAlphaType None) [] =
   (Returned (Some (\<lparr>proxy_id = 1, proxy_config = kRGBA_8888_GrPixelConfig\<rparr>,
                    SkIPoint_Make 0 0, SkIRect_MakeWH 100 100)),
    [MakeDeferredRenderTargetContext kApprox 100 100 kRGBA_8888_GrPixelConfig None True,
     FillRectToRect 1 (SkIRect_MakeWH 100 100)
       \<lparr>gammaCorrect = False,
        colorFragmentProcessor =
          GrTextureDomainEffect_Make (source_texture kRGBA_8888_GrPixelConfig) SkMatrix_I
            (SkRect_MakeLTRB (1 / 2) (1 / 2) (399 / 2) (399 / 2)) kClamp_Mode kBilerp,
        xpFactory = kSrc\<rparr>
       (SkRect_MakeLTRB 0 0 100 100) (SkRect_MakeLTRB 0 0 200 200),
     AsTextureProxyRef 1 True,
     AbsClear 1 (SkIRect_MakeXYWH 100 0 12 100),
     AsTextureProxyRef 1 True]) \<and>
   (\<exists>pre.
      [MakeDeferredRenderTargetContext kApprox 100 100 kRGBA_8888_GrPixelConfig None True,
       FillRectToRect 1 (SkIRect_MakeWH 100 100)
         \<lparr>gammaCorrect = False,
          colorFragmentProcessor =
            GrTextureDomainEffect_Make (source_texture kRGBA_8888_GrPixelConfig) SkMatrix_I
              (SkRect_MakeLTRB (1 / 2) (1 / 2) (399 / 2) (399 / 2)) kClamp_Mode kBilerp,
          xpFactory = kSrc\<rparr>
         (SkRect_MakeLTRB 0 0 100 100) (SkRect_MakeLTRB 0 0 200 200),
       AsTextureProxyRef 1 True,
       AbsClear 1 (SkIRect_MakeXYWH 100 0 12 100),
       AsTextureProxyRef 1 True] =
      pre @ [AbsClear 1 (SkIRect_MakeXYWH 100 0 12 100)] @ [AsTextureProxyRef 1 True] \<and>
      cleared_rects pre = cleared_rects [])"
proof -
  let ?log = "[MakeDeferredRenderTargetContext kApprox 100 100 kRGBA_8888_GrPixelConfig None True,
     FillRectToRect 1 (SkIRect_MakeWH 100 100)
       \<lparr>gammaCorrect = False,
        colorFragmentProcessor =
          GrTextureDomainEffect_Make (source_texture kRGBA_8888_GrPixelConfig) SkMatrix_I
            (SkRect_MakeLTRB (1 / 2) (1 / 2) (399 / 2) (399 / 2)) kClamp_Mode kBilerp,
        xpFactory = kSrc\<rparr>
       (SkRect_MakeLTRB 0 0 100 100) (SkRect_MakeLTRB 0 0 200 200),
     AsTextureProxyRef 1 True,
     AbsClear 1 (SkIRect_MakeXYWH 100 0 12 100),
     AsTextureProxyRef 1 True]"
  have e: "decimate (skia_build False) (granting_context 1024) (source_texture kRGBA_8888_GrPixelConfig)
     (SkIPoint_Make 0 0) (SkIRect_MakeWH 200 200) 2 2 True True 12 12 kClamp_Mode
     (SkImageInfo_Make 200 200 kRGBA_8888_SkColorType kPremul_SkAlphaType None) [] =
   (Returned (Some (\<lparr>proxy_id = 1, proxy_config = kRGBA_8888_GrPixelConfig\<rparr>,
                    SkIPoint_Make 0 0, SkIRect_MakeWH 100 100)), ?log)"
    by (simp add: blur_defs renderer_defs geometry_defs sample_defs Let_def)
  show ?thesis
    using decimate_halo_clear [OF e] e
    by (simp add: SkIRect_MakeWH_def SkIRect_MakeXYWH_def SkIRect_height_def)
qed

text \<open>
  C8. \<^verbatim>\<open>reexpand\<close> first clears, on the blurred source surface, a strip one pixel high
  immediately below and a strip one pixel wide immediately to the right of the
  rectangle \<open>(0, 0, width, height)\<close> of that surface, the rectangle that the draw then
  samples (the strip below is one pixel longer and covers the corner). Nothing else is
  cleared, and the bilinear draw, when it is issued, comes after both clears.
\<close>

theorem reexpand_clears_halo_before_draw:
  "\<exists>rest.
     snd (reexpand b ctx src localSrcBounds sfx sfy mode dstII fit evs) =
       evs @
       [AbsClear (rtc_id src) (SkIRect_MakeXYWH 0 (rtc_height src) (rtc_width src + 1) 1),
        AbsClear (rtc_id src) (SkIRect_MakeXYWH (rtc_width src) 0 1 (rtc_height src))] @
       rest \<and>
     cleared_rects rest = [] \<and>
     (\<forall>dst. fst (reexpand b ctx src localSrcBounds sfx sfy mode dstII fit evs) = Returned (Some dst) \<longrightarrow>
        (\<exists>paint.
           rest =
             [AsTextureProxyRef (rtc_id src) True,
              MakeDeferredRenderTargetContext fit (ii_width dstII) (ii_height dstII) (rtc_config dst)
                (ii_colorSpace dstII) True,
              FillRectToRect (rtc_id dst) (SkImageInfo_bounds dstII) paint
                (SkRect_Make
                   (scale_irect (SkIRect_MakeWH (rtc_width src) (rtc_height src)) sfx sfy))
                (SkRect_Make (SkIRect_MakeWH (rtc_width src) (rtc_height src)))]))"
  by (auto simp: reexpand_def renderer_defs Let_def SkIRect_MakeWH_def SkIRect_MakeXYWH_def
      SkIRect_width_def SkIRect_height_def
      split: outcome.splits option.splits prod.splits if_splits)

theorem reexpand_clears_halo_before_draw_witness:
  "snd (reexpand (skia_build True) (granting_context 1024)
          \<lparr>rtc_id = 7, rtc_width = 100, rtc_height = 50, rtc_config = kRGBA_8888_GrPixelConfig,
           rtc_colorSpace = None\<rparr>
          (SkIRect_MakeLTRB 0 12 100 38) 2 4 kClamp_Mode
          (SkImageInfo_Make 200 200 kRGBA_8888_SkColorType kPremul_SkAlphaType None) kExact []) =
     [AbsClear 7 (SkIRect_MakeXYWH 0 50 101 1),
      AbsClear 7 (SkIRect_MakeXYWH 100 0 1 50),
      AsTextureProxyRef 7 True,
      MakeDeferredRenderTargetContext kExact 200 200 kRGBA_8888_GrPixelConfig None True,
      FillRectToRect 4 (SkIRect_MakeWH 200 200)
        \<lparr>gammaCorrect = False,
         colorFragmentProcessor =
           GrTextureDomainEffect_Make \<lparr>proxy_id = 7, proxy_config = kRGBA_8888_GrPixelConfig\<rparr>
             SkMatrix_I (SkRect_MakeLTRB 0 12 100 38) kClamp_Mode kBilerp,
         xpFactory = kSrc\<rparr>
        (SkRect_MakeLTRB 0 0 200 200) (SkRect_MakeLTRB 0 0 100 50)]"
  using reexpand_clears_halo_before_draw [of "skia_build True" "granting_context 1024"
      "\<lparr>rtc_id = 7, rtc_width = 100, rtc_height = 50, rtc_config = kRGBA_8888_GrPixelConfig,
        rtc_colorSpace = None\<rparr>"
      "SkIRect_MakeLTRB 0 12 100 38" 2 4 kClamp_Mode
      "SkImageInfo_Make 200 200 kRGBA_8888_SkColorType kPremul_SkAlphaType None" kExact "[]"]
  by (simp add: blur_defs renderer_defs geometry_defs sample_defs Let_def)

text \<open>
  C9. In a blur with edge mode Repeat, every texture-domain effect that is drawn (the
  first halving step of decimation, and re-expansion) uses the mode Decal.
\<close>

theorem GaussianBlur_repeat_scales_with_decal:
  "set (domain_modes (snd (GaussianBlur b ctx src cs dstBounds srcBounds sigmaX sigmaY kRepeat_Mode
          alphaType fit []))) \<subseteq> {kDecal_Mode}"
  using GaussianBlur_stage [of b cs src kRepeat_Mode "[]" ctx dstBounds srcBounds sigmaX sigmaY alphaType fit]
  by (auto simp: stage_ok_def stage_log_def modeForScaling_def)

theorem GaussianBlur_repeat_scales_with_decal_witness:
  "domain_modes (snd (GaussianBlur (skia_build True) (granting_context 1024)
          (source_texture kSRGBA_8888_GrPixelConfig) None (SkIRect_MakeWH 200 200)
          (SkIRect_MakeLTRB 50 50 150 150) 8 8 kRepeat_Mode kPremul_SkAlphaType kExact [])) =
     [kDecal_Mode, kDecal_Mode]"
  using GaussianBlur_repeat_scales_with_decal [of "skia_build True" "granting_context 1024"
      "source_texture kSRGBA_8888_GrPixelConfig" None "SkIRect_MakeWH 200 200"
      "SkIRect_MakeLTRB 50 50 150 150" 8 8 kPremul_SkAlphaType kExact]
  by (simp add: blur_defs renderer_defs geometry_defs sample_defs Let_def)

text \<open>
  C10. When the source texture has an sRGB pixel config and the destination colour
  space is null, every surface the blur asks the renderer to allocate has the config
  \<open>kRGBA_8888\<close>; in every other case every such surface has the config of the source.
\<close>

theorem GaussianBlur_allocates_blur_config:
  "(GrPixelConfigIsSRGB b (proxy_config src) \<and> cs = None \<longrightarrow>
      set (allocated_configs (snd (GaussianBlur b ctx src cs dstBounds srcBounds sigmaX sigmaY mode
             alphaType fit []))) \<subseteq> {kRGBA_8888_GrPixelConfig}) \<and>
   (\<not> (GrPixelConfigIsSRGB b (proxy_config src) \<and> cs = None) \<longrightarrow>
      set (allocated_configs (snd (GaussianBlur b ctx src cs dstBounds srcBounds sigmaX sigmaY mode
             alphaType fit []))) \<subseteq> {proxy_config src})"
  using GaussianBlur_stage [of b cs src mode "[]" ctx dstBounds srcBounds sigmaX sigmaY alphaType fit]
  by (auto simp: stage_ok_def stage_log_def blur_config_def)

theorem GaussianBlur_allocates_blur_config_witness:
  "GrPixelConfigIsSRGB (skia_build True) (proxy_config (source_texture kSRGBA_8888_GrPixelConfig)) \<and>
   allocated_configs (snd (GaussianBlur (skia_build True) (granting_context 1024)
          (source_texture kSRGBA_8888_GrPixelConfig) None (SkIRect_MakeWH 200 200)
          (SkIRect_MakeLTRB 50 50 150 150) 8 8 kRepeat_Mode kPremul_SkAlphaType kExact [])) =
     [kRGBA_8888_GrPixelConfig, kRGBA_8888_GrPixelConfig, kRGBA_8888_GrPixelConfig,
      kRGBA_8888_GrPixelConfig] \<and>
   allocated_configs (snd (GaussianBlur (skia_build True) (granting_context 1024)
          (source_texture kSRGBA_8888_GrPixelConfig) (Some 1) (SkIRect_MakeWH 200 200)
          (SkIRect_MakeLTRB 50 50 150 150) 8 8 kRepeat_Mode kPremul_SkAlphaType kExact [])) =
     [kSRGBA_8888_GrPixelConfig, kSRGBA_8888_GrPixelConfig, kSRGBA_8888_GrPixelConfig,
      kSRGBA_8888_GrPixelConfig] \<and>
   \<not> GrPixelConfigIsSRGB (skia_build True) (proxy_config (source_texture kRGB_565_GrPixelConfig)) \<and>
   allocated_configs (snd (GaussianBlur (skia_build True) (granting_context 1024)
          (source_texture kRGB_565_GrPixelConfig) None (SkIRect_MakeWH 200 200)
          (SkIRect_MakeLTRB 50 50 150 150) 2 0 kClamp_Mode kPremul_SkAlphaType kExact [])) =
     [kRGB_565_GrPixelConfig]"
  using GaussianBlur_allocates_blur_config [of "skia_build True"
      "source_texture kSRGBA_8888_GrPixelConfig" None "granting_context 1024" "SkIRect_MakeWH 200 200"
      "SkIRect_MakeLTRB 50 50 150 150" 8 8 kRepeat_Mode kPremul_SkAlphaType kExact]
    GaussianBlur_allocates_blur_config [of "skia_build True"
      "source_texture kSRGBA_8888_GrPixelConfig" "Some 1" "granting_context 1024" "SkIRect_MakeWH 200 200"
      "SkIRect_MakeLTRB 50 50 150 150" 8 8 kRepeat_Mode kPremul_SkAlphaType kExact]
    GaussianBlur_allocates_blur_config [of "skia_build True"
      "source_texture kRGB_565_GrPixelConfig" None "granting_context 1024" "SkIRect_MakeWH 200 200"
      "SkIRect_MakeLTRB 50 50 150 150" 2 0 kClamp_Mode kPremul_SkAlphaType kExact]
  by (simp add: blur_defs renderer_defs geometry_defs sample_defs Let_def)

end
